theory Spec2Isabelle
  imports Complex_Main "HOL-Library.Sublist"
begin

section \<open>The training and evaluation driver of \<^verbatim>\<open>examples/cnn3d/train_ppi.py\<close>\<close>

text \<open>
  The development embeds \<^verbatim>\<open>train_model\<close> and its nested helpers. What the script
  leaves to its collaborators is a parameter of the model:
  \<^item> the network and its optimizer (\<^verbatim>\<open>examples.cnn3d.model\<close>) are a record of two
    functions over an abstract type \<open>'p\<close> of variable values;
  \<^item> one pass of \<^verbatim>\<open>feature_ppi.dataset_generator\<close> over a split is a finite list of
    examples, \<^verbatim>\<open>get_num_keyed()\<close> an integer;
  \<^item> the table construction and the \<^verbatim>\<open>sklearn\<close> metrics are a predicate telling
    whether they raise on a result set.
  Python integers are \<open>int\<close>. The float arithmetic of line 197, which bounds the loop,
  is binary64 arithmetic with its rounding and its overflow. The losses and the running
  means are read as \<open>real\<close> numbers: their rounding and NaN are outside the model;
  \<^verbatim>\<open>float("inf")\<close> is a constructor of its own.
\<close>

subsection \<open>Configuration\<close>

datatype error =
  AssertionError | ZeroDivisionError | OverflowError | UnboundLocalError | KeyError
  | TypeError | ValueError | FileNotFoundError | OSError

record grid_config =
  max_pos_regions_per_ensemble :: int
  max_pos_regions_per_ensemble_testing :: int
  neg_to_pos_ratio :: int
  neg_to_pos_ratio_testing :: int
  full_test :: bool

text \<open>The fields of the parsed command line that \<^verbatim>\<open>train_model\<close> reads. All integer
  options are declared \<^verbatim>\<open>type=int\<close>; \<open>batch_size\<close> is a natural number because the
  batching layer accepts no negative size (zero is kept: line 197 divides by it).\<close>

record args =
  test_only :: bool
  use_best :: bool
  early_stopping :: bool
  save_all_ckpts :: bool
  shuffle :: bool
  num_epochs :: int
  repeat_gen :: int
  batch_size :: nat
  max_num_ensembles_train :: "int option"
  max_num_ensembles_val :: "int option"
  max_num_ensembles_test :: "int option"
  conv_drop_rate :: real
  fc_drop_rate :: real
  top_nn_drop_rate :: real
  output_dir :: string
  model_dir :: string
  grid_config :: grid_config

subsection \<open>The session: placeholders, fetches, one run\<close>

text \<open>An example is \<open>(structure, feature, label)\<close>; labels are 0 or 1, so the casts to
  \<^verbatim>\<open>int8\<close> of lines 220 and 221 change nothing.\<close>

type_synonym 'f example = "string \<times> 'f \<times> int"

record 'f feed =
  feature_placeholder :: "'f list"
  label_placeholder :: "int list"
  training_placeholder :: bool
  conv_drop_rate_placeholder :: real
  fc_drop_rate_placeholder :: real
  top_nn_drop_rate_placeholder :: real

text \<open>The values of the four tensors of \<^verbatim>\<open>conv_model\<close> on one batch.\<close>

record batch_out =
  logits_op :: "real list"
  predict_op :: "int list"
  loss_op :: "real list"
  accuracy_op :: "real list"

text \<open>The network: what its tensors evaluate to under given variable values and a feed,
  and what one run of the optimizer's \<^verbatim>\<open>train_op\<close> (line 176) does to the variables.\<close>

record ('p, 'f) network =
  eval_ops :: "'p \<Rightarrow> 'f feed \<Rightarrow> batch_out"
  apply_train_op :: "'p \<Rightarrow> 'f feed \<Rightarrow> 'p"

datatype fetch = Train_op | Logits_op | Predict_op | Loss_op | Accuracy_op

text \<open>\<^verbatim>\<open>sess.run(fetches, feed_dict)\<close>: the variables change exactly when the
  optimizer's operation is among the fetches; the tensor values are those under the
  variables before the run.\<close>

definition sess_run ::
  "('p, 'f) network \<Rightarrow> 'p \<Rightarrow> fetch list \<Rightarrow> 'f feed \<Rightarrow> 'p \<times> batch_out" where
  "sess_run net p fetches fd =
     (if Train_op \<in> set fetches then apply_train_op net p fd else p, eval_ops net p fd)"

text \<open>The feed dictionary of lines 206 to 214.\<close>

definition feed_dict :: "args \<Rightarrow> string \<Rightarrow> 'f list \<Rightarrow> int list \<Rightarrow> 'f feed" where
  "feed_dict a mode feature' label' =
     \<lparr> feature_placeholder = feature',
       label_placeholder = label',
       training_placeholder = (mode = ''train''),
       conv_drop_rate_placeholder = (if mode = ''train'' then conv_drop_rate a else 0),
       fc_drop_rate_placeholder = (if mode = ''train'' then fc_drop_rate a else 0),
       top_nn_drop_rate_placeholder = (if mode = ''train'' then top_nn_drop_rate a else 0) \<rparr>"

subsection \<open>The input pipeline\<close>

text \<open>A \<^verbatim>\<open>tf.data\<close> dataset is a finite sequence or an endless one. \<open>get_next ds i\<close> is
  what the \<open>i\<close>-th run of the one-shot iterator's \<^verbatim>\<open>next_element\<close> returns; \<open>None\<close> is
  \<^verbatim>\<open>OutOfRangeError\<close>.\<close>

datatype 'a dataset = Finite "'a list" | Endless "nat \<Rightarrow> 'a"

fun get_next :: "'a dataset \<Rightarrow> nat \<Rightarrow> 'a option" where
  "get_next (Finite xs) i = (if i < length xs then Some (xs ! i) else None)"
| "get_next (Endless f) i = Some (f i)"

definition from_generator :: "'a list \<Rightarrow> 'a dataset" where
  "from_generator gen = Finite gen"

text \<open>\<^verbatim>\<open>repeat(count=None)\<close> cycles through its input for ever; over an empty input it
  ends at once.\<close>

fun repeat_ds :: "'a dataset \<Rightarrow> 'a dataset" where
  "repeat_ds (Finite xs) =
     (if xs = [] then Finite [] else Endless (\<lambda>k. xs ! (k mod length xs)))"
| "repeat_ds (Endless f) = Endless f"

text \<open>\<^verbatim>\<open>shuffle_and_repeat\<close> also repeats for ever, in an order the library draws; the
  draw is the parameter \<open>order\<close>.\<close>

fun shuffle_and_repeat :: "(nat \<Rightarrow> nat) \<Rightarrow> 'a dataset \<Rightarrow> 'a dataset" where
  "shuffle_and_repeat order (Finite xs) =
     (if xs = [] then Finite [] else Endless (\<lambda>k. xs ! (order k mod length xs)))"
| "shuffle_and_repeat order (Endless f) = Endless (\<lambda>k. f (order k))"

text \<open>Consecutive groups of \<open>n\<close> elements, the last one possibly shorter.\<close>

function groups_of :: "nat \<Rightarrow> 'a list \<Rightarrow> 'a list list" where
  "groups_of n xs =
     (if 0 < n \<and> xs \<noteq> [] then take n xs # groups_of n (drop n xs) else [])"
  by pat_completeness auto
termination
  by (relation "measure (length \<circ> snd)") auto

declare groups_of.simps [simp del]

fun batch :: "nat \<Rightarrow> 'a dataset \<Rightarrow> 'a list dataset" where
  "batch n (Finite xs) = Finite (groups_of n xs)"
| "batch n (Endless f) = Endless (\<lambda>k. map f [k * n..<k * n + n])"

definition prefetch :: "nat \<Rightarrow> 'a dataset \<Rightarrow> 'a dataset" where
  "prefetch n ds = ds"

text \<open>\<^verbatim>\<open>batch_dataset_generator\<close> (lines 126 to 148). The branch on \<^verbatim>\<open>args.shuffle\<close> is
  the source's: the plain repeat when the flag is set, the shuffled one otherwise.\<close>

definition batch_dataset_generator ::
  "(nat \<Rightarrow> nat) \<Rightarrow> 'e list \<Rightarrow> args \<Rightarrow> bool \<Rightarrow> 'e list dataset" where
  "batch_dataset_generator order gen a is_testing =
     (let dataset = from_generator gen;
          dataset = (if \<not> is_testing
                     then (if shuffle a then repeat_ds dataset
                           else shuffle_and_repeat order dataset)
                     else dataset);
          dataset = batch (batch_size a) dataset;
          dataset = prefetch 8 dataset
      in dataset)"

subsection \<open>The evaluator loop\<close>

text \<open>The local variables of \<^verbatim>\<open>__loop\<close> (lines 191 to 193), with the variables of the
  session. The two running means are real numbers here, updated without rounding.\<close>

record 'p loop_state =
  variables :: 'p
  structures :: "string list"
  losses :: "real list list"
  logits :: "real list"
  preds :: "int list"
  labels :: "int list"
  epoch_loss :: real
  epoch_acc :: real

definition np_mean :: "real list \<Rightarrow> real" where
  "np_mean xs = sum_list xs / real (length xs)"

text \<open>The body of the \<^verbatim>\<open>try\<close> block for batch \<open>i\<close> (lines 203 to 221).\<close>

definition loop_body ::
  "('p, 'f) network \<Rightarrow> args \<Rightarrow> string \<Rightarrow> nat \<Rightarrow> 'f example list \<Rightarrow> 'p loop_state
     \<Rightarrow> 'p loop_state" where
  "loop_body net a mode i b st =
     (let structure' = map fst b;
          feature' = map (fst \<circ> snd) b;
          label' = map (snd \<circ> snd) b;
          (p', out) = sess_run net (variables st)
                        [Train_op, Logits_op, Predict_op, Loss_op, Accuracy_op]
                        (feed_dict a mode feature' label')
      in st \<lparr> variables := p',
               epoch_loss := epoch_loss st + (np_mean (loss_op out) - epoch_loss st) / (real i + 1),
               epoch_acc := epoch_acc st + (np_mean (accuracy_op out) - epoch_acc st) / (real i + 1),
               structures := structures st @ structure',
               losses := losses st @ [loss_op out],
               logits := logits st @ logits_op out,
               preds := preds st @ predict_op out,
               labels := labels st @ label' \<rparr>)"

text \<open>\<^verbatim>\<open>for i in range(num_batches)\<close> with its \<^verbatim>\<open>break\<close> on the end of the dataset
  (lines 201 to 227).\<close>

fun for_batches ::
  "('p, 'f) network \<Rightarrow> args \<Rightarrow> string \<Rightarrow> 'f example list dataset \<Rightarrow> nat list
     \<Rightarrow> 'p loop_state \<Rightarrow> 'p loop_state" where
  "for_batches net a mode ds [] st = st"
| "for_batches net a mode ds (i # is) st =
     (case get_next ds i of
        None \<Rightarrow> st
      | Some b \<Rightarrow> for_batches net a mode ds is (loop_body net a mode i b st))"

text \<open>Binary64 arithmetic. A finite double is an integer multiple of the spacing of its
  binade, \<open>2 ^ (e - 52)\<close> for a value in \<open>[2 ^ e, 2 ^ (e + 1))\<close> and \<open>2 ^ (- 1074)\<close> below the
  normal range; an operation returns the double nearest to the exact result, a tie going
  to the even multiple.\<close>

definition round_half_even :: "real \<Rightarrow> int" where
  "round_half_even x =
     (let f = \<lfloor>x\<rfloor>; r = x - of_int f
      in if r < 1 / 2 then f else if 1 / 2 < r then f + 1 else if even f then f else f + 1)"

definition ulp64 :: "real \<Rightarrow> real" where
  "ulp64 x = 2 powr of_int (max \<lfloor>log 2 \<bar>x\<bar>\<rfloor> (- 1022) - 52)"

definition double_round :: "real \<Rightarrow> real" where
  "double_round x =
     (if x = 0 then 0 else of_int (round_half_even (x / ulp64 x)) * ulp64 x)"

text \<open>\<^verbatim>\<open>float(n)\<close> of an integer, also the conversion of an integer operand of a float
  operation: the nearest double, and \<^verbatim>\<open>OverflowError\<close> when that is beyond the largest
  one.\<close>

definition py_float :: "int \<Rightarrow> error + real" where
  "py_float n =
     (let x = double_round (of_int n)
      in if 2 ^ 1024 \<le> \<bar>x\<bar> then Inl OverflowError else Inr x)"

text \<open>Line 197: \<^verbatim>\<open>int(math.ceil(float(num_iters)/args.batch_size))\<close>. The conversion of
  \<open>num_iters\<close> comes first, then that of the divisor, then the test for zero; the quotient
  of a double by a double that is at least one cannot overflow. A range over a negative
  bound is empty.\<close>

definition num_batches :: "args \<Rightarrow> int \<Rightarrow> error + nat" where
  "num_batches a num_iters =
     (case py_float num_iters of
        Inl err \<Rightarrow> Inl err
      | Inr x \<Rightarrow>
          (case py_float (int (batch_size a)) of
             Inl err \<Rightarrow> Inl err
           | Inr y \<Rightarrow>
               if y = 0 then Inl ZeroDivisionError
               else Inr (nat \<lceil>double_round (x / y)\<rceil>)))"

definition init_loop :: "'p \<Rightarrow> 'p loop_state" where
  "init_loop p =
     \<lparr> variables = p, structures = [], losses = [], logits = [], preds = [], labels = [],
       epoch_loss = 0, epoch_acc = 0 \<rparr>"

text \<open>The state when the \<^verbatim>\<open>with\<close> block of line 200 is left, for the bound \<open>nb\<close> that
  line 197 computed.\<close>

definition run_batches ::
  "('p, 'f) network \<Rightarrow> (nat \<Rightarrow> nat) \<Rightarrow> args \<Rightarrow> 'f example list \<Rightarrow> string \<Rightarrow> nat \<Rightarrow> 'p
     \<Rightarrow> 'p loop_state" where
  "run_batches net order a generator mode nb p =
     for_batches net a mode
       (batch_dataset_generator order generator a (mode = ''test''))
       [0..<nb] (init_loop p)"

text \<open>What \<^verbatim>\<open>__loop\<close> returns (line 241): the accuracy is dropped, the per-batch loss
  arrays are concatenated.\<close>

record loop_result =
  res_structures :: "string list"
  res_logits :: "real list"
  res_preds :: "int list"
  res_labels :: "int list"
  res_losses :: "real list"
  res_epoch_loss :: real

definition result_of :: "'p loop_state \<Rightarrow> loop_result" where
  "result_of st =
     \<lparr> res_structures = structures st, res_logits = logits st, res_preds = preds st,
       res_labels = labels st, res_losses = concat (losses st),
       res_epoch_loss = epoch_loss st \<rparr>"

text \<open>\<^verbatim>\<open>__loop(generator, mode, num_iters)\<close>: the result and the session's variables
  afterwards. The exceptions it lets through are those of line 197.\<close>

definition loop ::
  "('p, 'f) network \<Rightarrow> (nat \<Rightarrow> nat) \<Rightarrow> args \<Rightarrow> 'f example list \<Rightarrow> string \<Rightarrow> int \<Rightarrow> 'p
     \<Rightarrow> error + loop_result \<times> 'p" where
  "loop net order a generator mode num_iters p =
     (case num_batches a num_iters of
        Inl err \<Rightarrow> Inl err
      | Inr nb \<Rightarrow>
          (let st = run_batches net order a generator mode nb p
           in Inr (result_of st, variables st)))"

text \<open>The tensor values the session returned for batch \<open>i\<close> of a call of \<^verbatim>\<open>__loop\<close>:
  those under the variables left by the batches before it. \<open>None\<close> when the dataset has
  no batch \<open>i\<close>.\<close>

definition session_values ::
  "('p, 'f) network \<Rightarrow> (nat \<Rightarrow> nat) \<Rightarrow> args \<Rightarrow> 'f example list \<Rightarrow> string \<Rightarrow> 'p \<Rightarrow> nat
     \<Rightarrow> batch_out option" where
  "session_values net order a generator mode p i =
     (let ds = batch_dataset_generator order generator a (mode = ''test'')
      in map_option
           (\<lambda>b. eval_ops net (variables (for_batches net a mode ds [0..<i] (init_loop p)))
                  (feed_dict a mode (map (fst \<circ> snd) b) (map (snd \<circ> snd) b)))
           (get_next ds i))"

text \<open>The dataset has its first \<open>n\<close> elements.\<close>

definition avail :: "'a dataset \<Rightarrow> nat \<Rightarrow> bool" where
  "avail ds n = (\<forall>i<n. get_next ds i \<noteq> None)"

subsection \<open>Checkpoints, run information and the state of \<^verbatim>\<open>train_model\<close>\<close>

text \<open>\<^verbatim>\<open>float("inf")\<close> and the two comparisons of lines 331 and 369 against it.\<close>

datatype pyfloat = Float real | Float_inf

fun float_lt :: "real \<Rightarrow> pyfloat \<Rightarrow> bool" where
  "float_lt x (Float y) = (x < y)"
| "float_lt x Float_inf = True"

fun float_ge :: "real \<Rightarrow> pyfloat \<Rightarrow> bool" where
  "float_ge x (Float y) = (y \<le> x)"
| "float_ge x Float_inf = False"

text \<open>The path \<^verbatim>\<open>saver.save\<close> returns: the directory and the global step of
  \<^verbatim>\<open><dir>/model-ckpt-<step>\<close>.\<close>

datatype ckpt_ref = Model_ckpt string int

text \<open>The values stored under the keys of \<^verbatim>\<open>run_info\<close>.\<close>

datatype info = Val_losses "real list" | Val_loss real | Ckpt ckpt_ref

text \<open>What is on disk: the checkpoints, and \<^verbatim>\<open>run_info.json\<close> by directory.\<close>

record 'p disk =
  disk_checkpoints :: "ckpt_ref \<rightharpoonup> 'p"
  disk_run_info :: "string \<rightharpoonup> (string \<rightharpoonup> info)"

text \<open>The session's variables, the disk and the local variables of \<^verbatim>\<open>train_model\<close>.
  \<open>ckpt = None\<close> is the unbound local variable.\<close>

record 'p state =
  sess :: 'p
  checkpoints :: "ckpt_ref \<rightharpoonup> 'p"
  run_info_json :: "string \<rightharpoonup> (string \<rightharpoonup> info)"
  prev_val_loss :: pyfloat
  best_val_loss :: pyfloat
  ckpt :: "ckpt_ref option"
  run_info :: "string \<rightharpoonup> info"
  per_epoch_val_losses :: "real list"

text \<open>The collaborators of one run.\<close>

record ('p, 'f) env =
  model :: "('p, 'f) network"
  initial_variables :: 'p
  shuffle_order :: "nat \<Rightarrow> nat"
  train_generator :: "'f example list"
  val_generator :: "'f example list"
  test_generator :: "'f example list"
  train_num_keyed :: int
  val_num_keyed :: int
  test_num_keyed :: int
  stats_raise :: "loop_result \<Rightarrow> bool"

text \<open>The state at line 253: the initializer has run (line 245), nothing is assigned yet.\<close>

definition initial_state :: "('p, 'f) env \<Rightarrow> 'p disk \<Rightarrow> 'p state" where
  "initial_state e d =
     \<lparr> sess = initial_variables e, checkpoints = disk_checkpoints d,
       run_info_json = disk_run_info d, prev_val_loss = Float_inf,
       best_val_loss = Float_inf, ckpt = None, run_info = Map.empty,
       per_epoch_val_losses = [] \<rparr>"

subsection \<open>Dataset-size accounting\<close>

text \<open>Lines 255 to 274. The options are integers, so \<^verbatim>\<open>int(1 + neg_to_pos_ratio)\<close> is
  \<open>1 + neg_to_pos_ratio\<close>.\<close>

definition train_val_num_structures :: "('p, 'f) env \<Rightarrow> args \<Rightarrow> error + int \<times> int" where
  "train_val_num_structures e a =
     (if max_pos_regions_per_ensemble (grid_config a) > 0 \<and> neg_to_pos_ratio (grid_config a) > 0
      then (let multiplier = max_pos_regions_per_ensemble (grid_config a)
                               * (1 + neg_to_pos_ratio (grid_config a));
                train_num_structures = (case max_num_ensembles_train a of
                                          None \<Rightarrow> train_num_keyed e | Some m \<Rightarrow> m);
                val_num_structures = (case max_num_ensembles_val a of
                                        None \<Rightarrow> val_num_keyed e | Some m \<Rightarrow> m)
            in Inr (train_num_structures * (repeat_gen a * multiplier),
                    val_num_structures * (repeat_gen a * multiplier)))
      else Inl AssertionError)"

text \<open>Lines 401 to 415.\<close>

definition test_num_structures :: "('p, 'f) env \<Rightarrow> args \<Rightarrow> error + int" where
  "test_num_structures e a =
     (if \<not> full_test (grid_config a)
         \<and> max_pos_regions_per_ensemble_testing (grid_config a) > 0
         \<and> neg_to_pos_ratio_testing (grid_config a) > 0
      then (let multiplier = max_pos_regions_per_ensemble_testing (grid_config a)
                               * (1 + neg_to_pos_ratio_testing (grid_config a));
                test_num_structures = (case max_num_ensembles_test a of
                                         None \<Rightarrow> test_num_keyed e | Some m \<Rightarrow> m)
            in Inr (test_num_structures * multiplier))
      else Inl AssertionError)"

subsection \<open>The epoch loop\<close>

text \<open>\<^verbatim>\<open>_save\<close> (lines 280 to 283) and \<^verbatim>\<open>__update_and_write_run_info\<close> (lines 287 to
  290).\<close>

definition save :: "args \<Rightarrow> int \<Rightarrow> 'p state \<Rightarrow> ckpt_ref \<times> 'p state" where
  "save a epoch st =
     (let c = Model_ckpt (output_dir a) epoch
      in (c, st \<lparr> checkpoints := (checkpoints st)(c \<mapsto> sess st) \<rparr>))"

definition update_and_write_run_info :: "args \<Rightarrow> string \<Rightarrow> info \<Rightarrow> 'p state \<Rightarrow> 'p state" where
  "update_and_write_run_info a key val st =
     (let ri = (run_info st)(key \<mapsto> val)
      in st \<lparr> run_info := ri, run_info_json := (run_info_json st)(output_dir a \<mapsto> ri) \<rparr>)"

text \<open>Lines 327 to 348: what one epoch records and saves, given its validation loss.\<close>

definition record_epoch :: "args \<Rightarrow> int \<Rightarrow> real \<Rightarrow> 'p state \<Rightarrow> 'p state" where
  "record_epoch a epoch curr_val_loss st0 =
     (let st = st0 \<lparr> per_epoch_val_losses := per_epoch_val_losses st0 @ [curr_val_loss] \<rparr>;
          st = update_and_write_run_info a ''val_losses''
                 (Val_losses (per_epoch_val_losses st)) st;
          st = (if use_best a \<or> early_stopping a
                then (if float_lt curr_val_loss (best_val_loss st)
                      then (let st = st \<lparr> best_val_loss := Float curr_val_loss \<rparr>;
                                (c, st) = save a epoch st;
                                st = st \<lparr> ckpt := Some c \<rparr>;
                                st = update_and_write_run_info a ''val_best_loss''
                                       (Val_loss curr_val_loss) st
                            in update_and_write_run_info a ''best_ckpt'' (Ckpt c) st)
                      else st)
                else st);
          st = (if epoch = num_epochs a - 1 \<and> \<not> use_best a
                then (let (c, st) = save a epoch st;
                          st = st \<lparr> ckpt := Some c \<rparr>
                      in update_and_write_run_info a ''best_ckpt'' (Ckpt c) st)
                else st);
          st = (if save_all_ckpts a
                then (let (c, st) = save a epoch st in st \<lparr> ckpt := Some c \<rparr>)
                else st)
      in st)"

text \<open>Lines 369 to 373: \<open>True\<close> is the \<^verbatim>\<open>break\<close>.\<close>

definition early_stop :: "args \<Rightarrow> real \<Rightarrow> 'p state \<Rightarrow> bool \<times> 'p state" where
  "early_stop a curr_val_loss st =
     (if early_stopping a \<and> float_ge curr_val_loss (prev_val_loss st) then (True, st)
      else (False, st \<lparr> prev_val_loss := Float curr_val_loss \<rparr>))"

text \<open>The body of the epoch loop (lines 294 to 373). The result tables and the metrics
  of lines 350 to 367 leave nothing this function reads; they may raise.\<close>

definition epoch_body ::
  "('p, 'f) env \<Rightarrow> args \<Rightarrow> int \<Rightarrow> int \<Rightarrow> int \<Rightarrow> 'p state \<Rightarrow> error + bool \<times> 'p state" where
  "epoch_body e a train_num val_num epoch st =
     (case loop (model e) (shuffle_order e) a (train_generator e) ''train'' train_num (sess st) of
        Inl err \<Rightarrow> Inl err
      | Inr (train_res, p1) \<Rightarrow>
          (case loop (model e) (shuffle_order e) a (val_generator e) ''val'' val_num p1 of
             Inl err \<Rightarrow> Inl err
           | Inr (val_res, p2) \<Rightarrow>
               (let curr_val_loss = res_epoch_loss val_res;
                    st = record_epoch a epoch curr_val_loss (st \<lparr> sess := p2 \<rparr>)
                in if stats_raise e train_res \<or> stats_raise e val_res then Inl ValueError
                   else Inr (early_stop a curr_val_loss st))))"

text \<open>\<^verbatim>\<open>for epoch in range(1, args.num_epochs+1)\<close> with its \<^verbatim>\<open>break\<close>.\<close>

fun for_epochs ::
  "('p, 'f) env \<Rightarrow> args \<Rightarrow> int \<Rightarrow> int \<Rightarrow> int list \<Rightarrow> 'p state \<Rightarrow> error + 'p state" where
  "for_epochs e a train_num val_num [] st = Inr st"
| "for_epochs e a train_num val_num (epoch # epochs) st =
     (case epoch_body e a train_num val_num epoch st of
        Inl err \<Rightarrow> Inl err
      | Inr (stop, st') \<Rightarrow>
          if stop then Inr st' else for_epochs e a train_num val_num epochs st')"

text \<open>The training phase (lines 252 to 373).\<close>

definition training :: "('p, 'f) env \<Rightarrow> args \<Rightarrow> 'p state \<Rightarrow> error + 'p state" where
  "training e a st =
     (case train_val_num_structures e a of
        Inl err \<Rightarrow> Inl err
      | Inr (train_num, val_num) \<Rightarrow>
          for_epochs e a train_num val_num [1..num_epochs a] st)"

subsection \<open>The test phase\<close>

text \<open>Lines 379 to 385: the checkpoint to test with. In the test-only branch
  \<^verbatim>\<open>run_info\<close> is read from \<^verbatim>\<open>model_dir\<close>.\<close>

definition lookup_best_ckpt :: "(string \<rightharpoonup> info) \<Rightarrow> error + ckpt_ref" where
  "lookup_best_ckpt ri =
     (case ri ''best_ckpt'' of
        None \<Rightarrow> Inl KeyError
      | Some (Ckpt c) \<Rightarrow> Inr c
      | Some _ \<Rightarrow> Inl TypeError)"

text \<open>\<^verbatim>\<open>tf.train.import_meta_graph(to_use + '.meta')\<close> (line 385): the saver of the
  stored graph, or \<^verbatim>\<open>OSError\<close> when the file is missing. A checkpoint is on disk with its
  meta graph or not at all.\<close>

definition import_meta_graph :: "ckpt_ref \<Rightarrow> 'p state \<Rightarrow> error + 'p state" where
  "import_meta_graph to_use st =
     (case checkpoints st to_use of
        None \<Rightarrow> Inl OSError
      | Some p \<Rightarrow> Inr st)"

definition select_checkpoint :: "args \<Rightarrow> 'p state \<Rightarrow> error + ckpt_ref \<times> 'p state" where
  "select_checkpoint a st =
     (if \<not> test_only a
      then (if use_best a
            then (case lookup_best_ckpt (run_info st) of
                    Inl err \<Rightarrow> Inl err | Inr c \<Rightarrow> Inr (c, st))
            else (case ckpt st of
                    None \<Rightarrow> Inl UnboundLocalError | Some c \<Rightarrow> Inr (c, st)))
      else (case run_info_json st (model_dir a) of
              None \<Rightarrow> Inl FileNotFoundError
            | Some ri \<Rightarrow>
                (case lookup_best_ckpt ri of
                   Inl err \<Rightarrow> Inl err
                 | Inr c \<Rightarrow>
                     (case import_meta_graph c (st \<lparr> run_info := ri \<rparr>) of
                        Inl err \<Rightarrow> Inl err | Inr st' \<Rightarrow> Inr (c, st')))))"

text \<open>\<^verbatim>\<open>saver.restore(sess, to_use)\<close> (line 388): the variables of the session become
  those of the checkpoint; \<^verbatim>\<open>ValueError\<close> when there is no such checkpoint.\<close>

definition restore :: "ckpt_ref \<Rightarrow> 'p state \<Rightarrow> error + 'p state" where
  "restore to_use st =
     (case checkpoints st to_use of
        None \<Rightarrow> Inl ValueError
      | Some p \<Rightarrow> Inr (st \<lparr> sess := p \<rparr>))"

text \<open>Lines 390 to 429: the count, the pass over the test split, its table and metrics.\<close>

definition testing :: "('p, 'f) env \<Rightarrow> args \<Rightarrow> 'p state \<Rightarrow> error + 'p state \<times> loop_result" where
  "testing e a st =
     (case test_num_structures e a of
        Inl err \<Rightarrow> Inl err
      | Inr test_num \<Rightarrow>
          (case loop (model e) (shuffle_order e) a (test_generator e) ''test'' test_num (sess st) of
             Inl err \<Rightarrow> Inl err
           | Inr (test_res, p) \<Rightarrow>
               if stats_raise e test_res then Inl ValueError
               else Inr (st \<lparr> sess := p \<rparr>, test_res)))"

text \<open>\<^verbatim>\<open>train_model(sess, args)\<close>: the final state and the test results, or the exception
  that ends the process.\<close>

definition train_model ::
  "('p, 'f) env \<Rightarrow> args \<Rightarrow> 'p disk \<Rightarrow> error + 'p state \<times> loop_result" where
  "train_model e a d =
     (case (if \<not> test_only a then training e a (initial_state e d)
            else Inr (initial_state e d)) of
        Inl err \<Rightarrow> Inl err
      | Inr st \<Rightarrow>
          (case select_checkpoint a st of
             Inl err \<Rightarrow> Inl err
           | Inr (to_use, st) \<Rightarrow>
               (case restore to_use st of
                  Inl err \<Rightarrow> Inl err
                | Inr st \<Rightarrow> testing e a st)))"

text \<open>No checkpoint of the epoch \<open>num_epochs\<close> is on disk beyond what \<open>c0\<close> says was
  there, and neither \<^verbatim>\<open>ckpt\<close> nor \<^verbatim>\<open>run_info['best_ckpt']\<close> names one.\<close>

definition no_final_ckpt :: "args \<Rightarrow> 'p option \<Rightarrow> 'p state \<Rightarrow> bool" where
  "no_final_ckpt a c0 st \<longleftrightarrow>
     checkpoints st (Model_ckpt (output_dir a) (num_epochs a)) = c0 \<and>
     ckpt st \<noteq> Some (Model_ckpt (output_dir a) (num_epochs a)) \<and>
     run_info st ''best_ckpt'' \<noteq> Some (Ckpt (Model_ckpt (output_dir a) (num_epochs a)))"

subsection \<open>A small concrete run\<close>

text \<open>A network whose variables count the runs of the optimizer's operation, and whose
  loss depends on that count only; one structure per split for training and validation,
  seven examples in the test split; metrics that never raise.\<close>

definition demo_loss :: "nat \<Rightarrow> real" where
  "demo_loss p = (if p < 2 then 1 else if p < 4 then 4 / 5 else 9 / 10)"

definition demo_net :: "(nat, unit) network" where
  "demo_net =
     \<lparr> eval_ops = (\<lambda>p fd.
         \<lparr> logits_op = map (\<lambda>_. 0) (label_placeholder fd),
           predict_op = map (\<lambda>_. 0) (label_placeholder fd),
           loss_op = map (\<lambda>_. demo_loss p) (label_placeholder fd),
           accuracy_op = map (\<lambda>_. 1) (label_placeholder fd) \<rparr>),
       apply_train_op = (\<lambda>p fd. Suc p) \<rparr>"

definition demo_env :: "(nat, unit) env" where
  "demo_env =
     \<lparr> model = demo_net, initial_variables = 0, shuffle_order = (\<lambda>k. k),
       train_generator = [(''1abc/12/45'', (), 1)],
       val_generator = [(''2xyz/3/4'', (), 0)],
       test_generator = [(''t/0/1'', (), 1), (''t/0/2'', (), 0), (''t/0/3'', (), 0),
                         (''t/1/2'', (), 1), (''t/1/3'', (), 0), (''t/2/3'', (), 0),
                         (''t/2/4'', (), 1)],
       train_num_keyed = 1, val_num_keyed = 1, test_num_keyed = 1,
       stats_raise = (\<lambda>_. False) \<rparr>"

definition demo_args :: args where
  "demo_args =
     \<lparr> test_only = False, use_best = False, early_stopping = False, save_all_ckpts = False,
       shuffle = True, num_epochs = 2, repeat_gen = 1, batch_size = 2,
       max_num_ensembles_train = None, max_num_ensembles_val = None,
       max_num_ensembles_test = None,
       conv_drop_rate = 1 / 10, fc_drop_rate = 1 / 4, top_nn_drop_rate = 1 / 2,
       output_dir = ''out'', model_dir = ''model'',
       grid_config = \<lparr> max_pos_regions_per_ensemble = 1,
                       max_pos_regions_per_ensemble_testing = 1,
                       neg_to_pos_ratio = 1, neg_to_pos_ratio_testing = 1,
                       full_test = False \<rparr> \<rparr>"

definition demo_disk :: "nat disk" where
  "demo_disk = \<lparr> disk_checkpoints = Map.empty, disk_run_info = Map.empty \<rparr>"

text \<open>A model directory left by an earlier run, for the test-only mode.\<close>

definition demo_model_disk :: "nat disk" where
  "demo_model_disk =
     \<lparr> disk_checkpoints = [Model_ckpt ''model'' 1 \<mapsto> 2],
       disk_run_info = [''model'' \<mapsto> [''best_ckpt'' \<mapsto> Ckpt (Model_ckpt ''model'' 1)]] \<rparr>"

section \<open>Binary64 rounding\<close>

lemma round_half_even_of_int [simp]: "round_half_even (of_int m) = m"
  by (simp add: round_half_even_def)

lemma round_half_even_ge: "of_int m \<le> t \<Longrightarrow> m \<le> round_half_even t"
  unfolding round_half_even_def Let_def by (auto simp: le_floor_iff) linarith+

lemma round_half_even_le: "t \<le> of_int m \<Longrightarrow> round_half_even t \<le> m"
  unfolding round_half_even_def Let_def by (auto split: if_splits) linarith+

lemma round_half_even_above_half:
  "of_int m + 1 / 2 < t \<Longrightarrow> m + 1 \<le> round_half_even t"
  unfolding round_half_even_def Let_def by (auto split: if_splits) linarith+

lemma ulp64_pos [simp]: "0 < ulp64 x"
  by (simp add: ulp64_def)

lemma ulp64_nonneg [simp]: "0 \<le> ulp64 x"
  by (simp add: ulp64_def)

lemma double_round_grid:
  assumes "x = of_int m * ulp64 x"
  shows "double_round x = x"
proof (cases "x = 0")
  case True
  then show ?thesis by (simp add: double_round_def)
next
  case False
  define u where "u = ulp64 x"
  have u: "0 < u" by (simp add: u_def)
  from assms have "x = of_int m * u" by (simp add: u_def)
  with u have "x / u = of_int m" by simp
  then have "of_int (round_half_even (x / u)) * u = of_int m * u" by simp
  with \<open>x = of_int m * u\<close> False show ?thesis by (simp add: double_round_def u_def)
qed

lemma double_round_ge:
  assumes "x \<noteq> 0" "of_int m * ulp64 x \<le> x"
  shows "of_int m * ulp64 x \<le> double_round x"
proof -
  from assms(2) have "of_int m \<le> x / ulp64 x"
    by (simp add: pos_le_divide_eq)
  then have "m \<le> round_half_even (x / ulp64 x)" by (rule round_half_even_ge)
  then have "of_int m * ulp64 x \<le> of_int (round_half_even (x / ulp64 x)) * ulp64 x"
    by (simp add: mult_right_mono)
  with assms(1) show ?thesis by (simp add: double_round_def)
qed

lemma double_round_le:
  assumes "x \<noteq> 0" "x \<le> of_int m * ulp64 x"
  shows "double_round x \<le> of_int m * ulp64 x"
proof -
  from assms(2) have "x / ulp64 x \<le> of_int m"
    by (simp add: pos_divide_le_eq)
  then have "round_half_even (x / ulp64 x) \<le> m" by (rule round_half_even_le)
  then have "of_int (round_half_even (x / ulp64 x)) * ulp64 x \<le> of_int m * ulp64 x"
    by (simp add: mult_right_mono)
  with assms(1) show ?thesis by (simp add: double_round_def)
qed

lemma double_round_above_half:
  assumes "x \<noteq> 0" "of_int m * ulp64 x + ulp64 x / 2 < x"
  shows "(of_int m + 1) * ulp64 x \<le> double_round x"
proof -
  from assms(2) have "(of_int m + 1 / 2) * ulp64 x < x" by (simp add: algebra_simps)
  then have "of_int m + 1 / 2 < x / ulp64 x"
    by (simp add: pos_less_divide_eq)
  then have "m + 1 \<le> round_half_even (x / ulp64 x)" by (rule round_half_even_above_half)
  then have "of_int (m + 1) * ulp64 x \<le> of_int (round_half_even (x / ulp64 x)) * ulp64 x"
    by (intro mult_right_mono) simp_all
  with assms(1) show ?thesis by (simp add: double_round_def)
qed

lemma ulp64_eq:
  assumes "2 powr of_int e \<le> \<bar>x\<bar>" "\<bar>x\<bar> < 2 powr of_int (e + 1)" "- 1022 \<le> e"
  shows "ulp64 x = 2 powr of_int (e - 52)"
proof -
  from assms(1) have "0 < \<bar>x\<bar>" by (smt (verit) powr_gt_zero)
  with assms(1,2) have "\<lfloor>log 2 \<bar>x\<bar>\<rfloor> = e"
    by (simp add: floor_log_eq_powr_iff)
  with assms(3) show ?thesis by (simp add: ulp64_def max_def)
qed

lemma double_round_eval:
  assumes "2 powr of_int e \<le> \<bar>x\<bar>" "\<bar>x\<bar> < 2 powr of_int (e + 1)" "- 1022 \<le> e"
  shows "double_round x =
     of_int (round_half_even (x / 2 powr of_int (e - 52))) * 2 powr of_int (e - 52)"
proof -
  from assms(1) have "x \<noteq> 0" by (smt (verit) powr_gt_zero)
  with ulp64_eq [OF assms] show ?thesis by (simp add: double_round_def)
qed

lemma pow2_powr: "(2::real) ^ n = 2 powr real n"
  by (simp add: powr_realpow)

lemma ulp_times_2_52: "2 powr of_int (e - 52) * 2 ^ 52 = (2::real) powr of_int e"
proof -
  have "(2::real) ^ 52 = 2 powr 52" by simp
  then have "2 powr of_int (e - 52) * 2 ^ 52 = (2::real) powr (of_int (e - 52) + 52)"
    by (simp only: powr_add)
  then show ?thesis by simp
qed

lemma ulp_times_pow:
  assumes "e \<le> 52"
  shows "2 powr of_int (e - 52) * 2 ^ nat (52 - e) = (1::real)"
proof -
  have "(2::real) ^ nat (52 - e) = 2 powr real (nat (52 - e))" by (rule pow2_powr)
  also have "real (nat (52 - e)) = of_int (52 - e)" using assms by simp
  finally have "2 powr of_int (e - 52) * 2 ^ nat (52 - e)
      = (2::real) powr (of_int (e - 52) + of_int (52 - e))"
    by (simp only: powr_add)
  then show ?thesis by simp
qed

lemma half_ulp: "2 powr of_int (e - 52) / 2 = (2::real) powr of_int e / 2 ^ 53"
proof -
  have "(2::real) powr of_int e = 2 powr of_int (e - 52) * 2 ^ 52"
    by (rule ulp_times_2_52 [symmetric])
  then show ?thesis by simp
qed

lemma binade:
  fixes x :: real
  assumes "0 < x"
  shows "2 powr of_int \<lfloor>log 2 x\<rfloor> \<le> x \<and> x < 2 powr of_int (\<lfloor>log 2 x\<rfloor> + 1)"
  using floor_log_eq_powr_iff [of x 2 "\<lfloor>log 2 x\<rfloor>"] assms by simp

lemma binade_upper:
  fixes x :: real
  assumes "2 powr of_int e \<le> x" "x \<le> 2 ^ 53"
  shows "e \<le> 53"
proof -
  have "(2::real) ^ 53 = 2 powr of_int 53" by simp
  with assms have "(2::real) powr of_int e \<le> 2 powr of_int 53" by (simp only:)
  with powr_le_cancel_iff [of 2 "of_int e" "of_int 53"]
  have "real_of_int e \<le> of_int 53" by simp
  then show ?thesis by linarith
qed

lemma binade_lower:
  fixes x :: real
  assumes "x < 2 powr of_int (e + 1)" "2 powr of_int l \<le> x"
  shows "l \<le> e"
proof -
  from assms(2) assms(1) have "(2::real) powr of_int l < 2 powr of_int (e + 1)"
    by (rule le_less_trans)
  with powr_less_cancel_iff [of 2 "of_int l" "of_int (e + 1)"]
  have "real_of_int l < of_int (e + 1)" by simp
  then show ?thesis by linarith
qed

lemma double_round_int_exact:
  assumes "\<bar>n\<bar> \<le> 2 ^ 53"
  shows "double_round (of_int n) = of_int n"
proof (cases "n = 0")
  case True
  then show ?thesis by (simp add: double_round_def)
next
  case False
  define x :: real where "x = \<bar>of_int n\<bar>"
  define e where "e = \<lfloor>log 2 x\<rfloor>"
  from False have x1: "1 \<le> x" by (simp add: x_def)
  from assms have x53: "x \<le> 2 ^ 53"
    unfolding x_def by (metis of_int_abs of_int_le_iff of_int_numeral of_int_power)
  from x1 binade [of x] have b: "2 powr of_int e \<le> x" "x < 2 powr of_int (e + 1)"
    by (simp_all add: e_def)
  from binade_upper [OF b(1) x53] have e53: "e \<le> 53" .
  from binade_lower [OF b(2), of 0] x1 have e0: "0 \<le> e" by simp
  from b e0 have u: "ulp64 (of_int n) = 2 powr of_int (e - 52)"
    by (intro ulp64_eq) (simp_all add: x_def)
  show ?thesis
  proof (cases "e \<le> 52")
    case True
    have "of_int n = of_int (n * 2 ^ nat (52 - e)) * ulp64 (of_int n)"
      using ulp_times_pow [OF True] by (simp add: u mult.assoc mult.commute [of "2 ^ _"])
    then show ?thesis by (rule double_round_grid)
  next
    case False
    with e53 have e: "e = 53" by simp
    with b(1) x53 have "x = 2 ^ 53" by simp
    then have "\<bar>n\<bar> = 2 ^ 53"
      unfolding x_def by (metis of_int_abs of_int_eq_iff of_int_numeral of_int_power)
    then have "2 dvd \<bar>n\<bar>" by simp
    then have "even n" by simp
    then obtain m where "n = 2 * m" by (elim evenE)
    then have "of_int n = of_int m * ulp64 (of_int n)"
      using u e by simp
    then show ?thesis by (rule double_round_grid)
  qed
qed

lemma double_round_nonpos:
  assumes "x \<le> 0"
  shows "double_round x \<le> 0"
proof (cases "x = 0")
  case True
  then show ?thesis by (simp add: double_round_def)
next
  case False
  from assms have "x \<le> of_int 0 * ulp64 x" by simp
  from double_round_le [OF False this] show ?thesis by simp
qed

lemma ceiling_double_round_div:
  fixes n b :: int
  assumes n: "0 < n" "n \<le> 2 ^ 53" and b: "0 < b" "b \<le> 2 ^ 53"
  shows "\<lceil>double_round (of_int n / of_int b)\<rceil> = \<lceil>real_of_int n / of_int b\<rceil>"
proof -
  define x :: real where "x = of_int n / of_int b"
  define e where "e = \<lfloor>log 2 x\<rfloor>"
  define c where "c = \<lceil>x\<rceil>"
  define k where "k = c - 1"
  have n53: "real_of_int n \<le> 2 ^ 53" and b53: "real_of_int b \<le> 2 ^ 53"
    using n(2) b(2) by (metis of_int_le_iff of_int_numeral of_int_power)+
  have bpos: "0 < real_of_int b" and npos: "0 < real_of_int n" using n b by simp_all
  have xpos: "0 < x" using n b by (simp add: x_def)
  have xn: "x \<le> of_int n"
    using b(1) npos by (simp add: x_def field_simps mult_le_cancel_left1) 
  have x53: "x \<le> 2 ^ 53" using xn n53 by linarith
  have xb: "1 / of_int b \<le> x"
    using n(1) bpos by (simp add: x_def field_simps)
  have bin: "2 powr of_int e \<le> x" "x < 2 powr of_int (e + 1)"
    using binade [OF xpos] by (simp_all add: e_def)
  from binade_upper [OF bin(1) x53] have e53: "e \<le> 53" .
  have "2 powr of_int (- 53) \<le> 1 / real_of_int b"
  proof -
    have "(2::real) powr of_int (- 53) = 1 / 2 ^ 53" by (simp add: powr_neg_numeral)
    also have "\<dots> \<le> 1 / real_of_int b" using bpos b53 by (simp add: frac_le)
    finally show ?thesis .
  qed
  with xb have "2 powr of_int (- 53) \<le> x" by linarith
  from binade_lower [OF bin(2) this] have elow: "- 53 \<le> e" .
  have nz: "x \<noteq> 0" using xpos by simp
  have u: "ulp64 x = 2 powr of_int (e - 52)"
    using bin elow xpos by (intro ulp64_eq) simp_all
  have kc: "real_of_int k < x" "x \<le> of_int c"
    unfolding k_def c_def by linarith+
  have cn: "c \<le> n" unfolding c_def using xn by (simp add: ceiling_le_iff)
  have k0: "0 \<le> k" using xpos unfolding k_def c_def by (simp add: less_ceiling_iff)
  have "\<exists>M. real_of_int c = of_int M * ulp64 x"
  proof (cases "e \<le> 52")
    case True
    have "real_of_int c = of_int (c * 2 ^ nat (52 - e)) * ulp64 x"
      using ulp_times_pow [OF True] by (simp add: u mult.assoc mult.commute [of "2 ^ _"])
    then show ?thesis ..
  next
    case False
    with e53 have e: "e = 53" by simp
    with bin(1) x53 have x: "x = 2 ^ 53" by simp
    then have "c = 2 ^ 53" by (simp add: c_def)
    then have "real_of_int c = of_int (2 ^ 52) * ulp64 x" using u e by simp
    then show ?thesis ..
  qed
  then obtain M where M: "real_of_int c = of_int M * ulp64 x" ..
  with kc(2) have "x \<le> of_int M * ulp64 x" by simp
  from double_round_le [OF nz this] M have upper: "double_round x \<le> of_int c" by simp
  have lower: "real_of_int k < double_round x"
  proof (cases "real_of_int k < 2 powr of_int e")
    case True
    have "of_int (2 ^ 52) * ulp64 x = 2 powr of_int e"
      using ulp_times_2_52 [of e] by (simp add: u mult.commute)
    with bin(1) double_round_ge [OF nz, of "2 ^ 52"] have "2 powr of_int e \<le> double_round x"
      by simp
    with True show ?thesis by linarith
  next
    case False
    then have ke: "2 powr of_int e \<le> real_of_int k" by simp
    have "real_of_int k < 2 ^ 53"
      using kc(1) x53 by linarith
    with ke have "(2::real) powr of_int e < 2 powr of_int 53" by simp
    with powr_less_cancel_iff [of 2 "of_int e" "of_int 53"] have "real_of_int e < of_int 53"
      by simp
    then have e52: "e \<le> 52" by linarith
    define K where "K = k * 2 ^ nat (52 - e)"
    have K: "of_int K * ulp64 x = real_of_int k"
      using ulp_times_pow [OF e52] by (simp add: K_def u mult.assoc mult.commute [of "2 ^ _"])
    have "k * b < n"
    proof -
      from kc(1) bpos have "real_of_int k * real_of_int b < real_of_int n"
        by (simp add: x_def pos_less_divide_eq)
      then have "real_of_int (k * b) < real_of_int n" by simp
      then show ?thesis by (simp only: of_int_less_iff)
    qed
    then have "k * b + 1 \<le> n" by simp
    then have "real_of_int (k * b + 1) \<le> real_of_int n" by (simp only: of_int_le_iff)
    then have "real_of_int k * real_of_int b + 1 \<le> real_of_int n" by simp
    then have "(real_of_int k * real_of_int b + 1) / real_of_int b \<le> x"
      unfolding x_def using bpos by (intro divide_right_mono) simp_all
    moreover have "(real_of_int k * real_of_int b + 1) / real_of_int b
        = real_of_int k + 1 / real_of_int b"
      using bpos by (simp add: add_divide_distrib)
    ultimately have gap: "real_of_int k + 1 / real_of_int b \<le> x" by simp
    have "ulp64 x / 2 = 2 powr of_int e / 2 ^ 53" unfolding u by (rule half_ulp)
    also have "\<dots> \<le> real_of_int k / 2 ^ 53" using ke by (simp add: divide_right_mono)
    also have "\<dots> < x / 2 ^ 53" using kc(1) by (simp add: divide_strict_right_mono)
    also have "\<dots> = real_of_int n / 2 ^ 53 * (1 / real_of_int b)" by (simp add: x_def)
    also have "\<dots> \<le> 1 * (1 / real_of_int b)"
      using n53 bpos by (intro mult_right_mono) simp_all
    finally have "ulp64 x / 2 < 1 / real_of_int b" by simp
    with gap have "of_int K * ulp64 x + ulp64 x / 2 < x" by (simp add: K)
    from double_round_above_half [OF nz this]
    have "of_int K * ulp64 x + ulp64 x \<le> double_round x"
      by (simp only: distrib_right mult_1)
    then have "real_of_int k + ulp64 x \<le> double_round x" by (simp only: K)
    with ulp64_pos [of x] show ?thesis by linarith
  qed
  from lower upper have "\<lceil>double_round x\<rceil> = c"
    unfolding k_def by (intro ceiling_unique) simp_all
  then show ?thesis by (simp add: x_def c_def)
qed

lemma py_float_exact:
  assumes "\<bar>n\<bar> \<le> 2 ^ 53"
  shows "py_float n = Inr (of_int n)"
proof -
  from assms have "\<bar>real_of_int n\<bar> \<le> 2 ^ 53"
    by (metis of_int_abs of_int_le_iff of_int_numeral of_int_power)
  moreover have "(2::real) ^ 53 < 2 ^ 1024" by simp
  ultimately have "\<not> 2 ^ 1024 \<le> \<bar>real_of_int n\<bar>" by linarith
  with double_round_int_exact [OF assms] show ?thesis
    by (simp add: py_float_def Let_def)
qed

text \<open>Within the integers a double holds exactly, line 197 computes the exact ceiling.\<close>

lemma num_batches_exact:
  assumes "0 < batch_size a" and "batch_size a \<le> 2 ^ 53" and "\<bar>num_iters\<bar> \<le> 2 ^ 53"
  shows "num_batches a num_iters = Inr (nat \<lceil>real_of_int num_iters / real (batch_size a)\<rceil>)"
proof -
  have b: "0 < int (batch_size a)" "int (batch_size a) \<le> 2 ^ 53"
    using assms(1,2) by (simp_all add: le_nat_iff [symmetric] nat_le_iff)
  then have "\<bar>int (batch_size a)\<bar> \<le> 2 ^ 53" by simp
  from py_float_exact [OF this] py_float_exact [OF assms(3)] assms(1)
  have nb: "num_batches a num_iters =
      Inr (nat \<lceil>double_round (real_of_int num_iters / real (batch_size a))\<rceil>)"
    by (simp add: num_batches_def)
  show ?thesis
  proof (cases "0 < num_iters")
    case True
    with assms(3) have "num_iters \<le> 2 ^ 53" by simp
    from ceiling_double_round_div [OF True this b] nb show ?thesis by simp
  next
    case False
    then have x: "real_of_int num_iters / real (batch_size a) \<le> 0"
      by (simp add: divide_nonpos_nonneg)
    from double_round_nonpos [OF this]
    have "\<lceil>double_round (real_of_int num_iters / real (batch_size a))\<rceil> \<le> 0" by simp
    moreover from x have "\<lceil>real_of_int num_iters / real (batch_size a)\<rceil> \<le> 0" by simp
    ultimately show ?thesis using nb by simp
  qed
qed

lemma num_batches_Inr_batch_size:
  assumes "num_batches a num_iters = Inr nb"
  shows "0 < batch_size a"
proof (rule ccontr)
  assume "\<not> 0 < batch_size a"
  then have "batch_size a = 0" by simp
  with py_float_exact [of 0] have "num_batches a num_iters \<noteq> Inr nb"
    by (simp add: num_batches_def split: sum.splits)
  with assms show False by simp
qed

section \<open>Properties of the evaluator loop\<close>

lemma feed_dict_eval_mode:
  "mode \<noteq> ''train'' \<Longrightarrow>
     conv_drop_rate_placeholder (feed_dict a mode fs ls) = 0 \<and>
     fc_drop_rate_placeholder (feed_dict a mode fs ls) = 0 \<and>
     top_nn_drop_rate_placeholder (feed_dict a mode fs ls) = 0 \<and>
     \<not> training_placeholder (feed_dict a mode fs ls)"
  by (simp add: feed_dict_def)

lemma get_next_mono: "get_next ds i = None \<Longrightarrow> i \<le> j \<Longrightarrow> get_next ds j = None"
  by (cases ds) (auto split: if_splits)

lemma for_batches_snoc:
  "for_batches net a mode ds (xs @ [j]) st =
     (if \<exists>x\<in>set xs. get_next ds x = None then for_batches net a mode ds xs st
      else (case get_next ds j of
              None \<Rightarrow> for_batches net a mode ds xs st
            | Some b \<Rightarrow> loop_body net a mode j b (for_batches net a mode ds xs st)))"
  by (induction xs arbitrary: st) (auto split: option.splits)

lemma for_batches_Suc_stop:
  assumes "\<not> avail ds (Suc n)"
  shows "for_batches net a mode ds [0..<Suc n] st = for_batches net a mode ds [0..<n] st"
proof -
  from assms obtain i where i: "i < Suc n" "get_next ds i = None"
    by (auto simp: avail_def)
  show ?thesis
  proof (cases "i < n")
    case True
    with i have "\<exists>x\<in>set [0..<n]. get_next ds x = None" by auto
    then show ?thesis by (simp add: for_batches_snoc del: set_upt)
  next
    case False
    with i have "get_next ds n = None" by (simp add: less_Suc_eq)
    then show ?thesis by (simp add: for_batches_snoc)
  qed
qed

lemma for_batches_Suc_go:
  assumes "avail ds (Suc n)"
  shows "\<exists>b. get_next ds n = Some b \<and>
     for_batches net a mode ds [0..<Suc n] st =
       loop_body net a mode n b (for_batches net a mode ds [0..<n] st)"
proof -
  from assms have all: "\<not> (\<exists>x\<in>set [0..<n]. get_next ds x = None)"
    by (auto simp: avail_def)
  from assms obtain b where b: "get_next ds n = Some b"
    by (auto simp: avail_def)
  with all show ?thesis by (auto simp: for_batches_snoc simp del: set_upt)
qed

lemma avail_Suc: "avail ds (Suc n) \<Longrightarrow> avail ds n"
  by (simp add: avail_def)

lemma losses_loop_body [simp]:
  "losses (loop_body net a mode i b st) =
     losses st @ [loss_op (eval_ops net (variables st)
        (feed_dict a mode (map (fst \<circ> snd) b) (map (snd \<circ> snd) b)))]"
  by (simp add: loop_body_def sess_run_def Let_def)

lemma mean_step_pos:
  fixes s v :: real
  assumes "0 < k"
  shows "s / real k + (v - s / real k) / (real k + 1) = (s + v) / (real k + 1)"
  using assms by (simp add: divide_simps) (simp add: algebra_simps)

lemma mean_step:
  "sum_list xs / real (length xs) + (v - sum_list xs / real (length xs)) / (real (length xs) + 1)
     = sum_list (xs @ [v]) / real (length (xs @ [v]))"
proof (cases "xs = []")
  case True
  then show ?thesis by simp
next
  case False
  then have "0 < length xs" by simp
  from mean_step_pos [OF this, of "sum_list xs" v] show ?thesis
    by (simp add: add.commute)
qed

lemma loop_body_fields:
  "epoch_loss (loop_body net a mode i b st) =
     epoch_loss st + (np_mean (loss_op (eval_ops net (variables st)
        (feed_dict a mode (map (fst \<circ> snd) b) (map (snd \<circ> snd) b)))) - epoch_loss st) / (real i + 1)"
  "epoch_acc (loop_body net a mode i b st) =
     epoch_acc st + (np_mean (accuracy_op (eval_ops net (variables st)
        (feed_dict a mode (map (fst \<circ> snd) b) (map (snd \<circ> snd) b)))) - epoch_acc st) / (real i + 1)"
  "structures (loop_body net a mode i b st) = structures st @ map fst b"
  "labels (loop_body net a mode i b st) = labels st @ map (snd \<circ> snd) b"
  "variables (loop_body net a mode i b st) =
     apply_train_op net (variables st) (feed_dict a mode (map (fst \<circ> snd) b) (map (snd \<circ> snd) b))"
  by (simp_all add: loop_body_def sess_run_def Let_def)

lemma running_mean_invariant:
  fixes net :: "('p, 'f) network"
  defines "S \<equiv> \<lambda>ds a mode p n. for_batches net a mode ds [0..<n] (init_loop p)"
  shows "\<exists>outs. length outs \<le> n \<and> (avail ds n \<longrightarrow> length outs = n) \<and>
      map (\<lambda>i. map_option
           (\<lambda>b. eval_ops net (variables (S ds a mode p i))
                  (feed_dict a mode (map (fst \<circ> snd) b) (map (snd \<circ> snd) b)))
           (get_next ds i)) [0..<length outs] = map Some outs \<and>
      losses (S ds a mode p n) = map loss_op outs \<and>
      epoch_loss (S ds a mode p n) = sum_list (map (np_mean \<circ> loss_op) outs) / real (length outs) \<and>
      epoch_acc (S ds a mode p n) = sum_list (map (np_mean \<circ> accuracy_op) outs) / real (length outs)"
proof (induction n)
  case 0
  show ?case by (simp add: S_def init_loop_def)
next
  case (Suc n)
  then obtain outs where outs: "length outs \<le> n" "avail ds n \<longrightarrow> length outs = n"
      "map (\<lambda>i. map_option
           (\<lambda>b. eval_ops net (variables (S ds a mode p i))
                  (feed_dict a mode (map (fst \<circ> snd) b) (map (snd \<circ> snd) b)))
           (get_next ds i)) [0..<length outs] = map Some outs"
      "losses (S ds a mode p n) = map loss_op outs"
      "epoch_loss (S ds a mode p n) = sum_list (map (np_mean \<circ> loss_op) outs) / real (length outs)"
      "epoch_acc (S ds a mode p n) = sum_list (map (np_mean \<circ> accuracy_op) outs) / real (length outs)"
    by blast
  show ?case
  proof (cases "avail ds (Suc n)")
    case False
    then have "S ds a mode p (Suc n) = S ds a mode p n"
      unfolding S_def by (rule for_batches_Suc_stop)
    moreover from False have "avail ds (Suc n) \<longrightarrow> length outs = Suc n" by simp
    moreover from outs(1) have "length outs \<le> Suc n" by simp
    ultimately show ?thesis using outs(3-6) by (intro exI [of _ outs]) (simp only:)
  next
    case True
    then obtain b where b: "get_next ds n = Some b"
        "S ds a mode p (Suc n) = loop_body net a mode n b (S ds a mode p n)"
      unfolding S_def using for_batches_Suc_go by blast
    from True outs have len: "length outs = n" by (simp add: avail_Suc)
    define out where "out = eval_ops net (variables (S ds a mode p n))
                  (feed_dict a mode (map (fst \<circ> snd) b) (map (snd \<circ> snd) b))"
    have "length (outs @ [out]) \<le> Suc n" "avail ds (Suc n) \<longrightarrow> length (outs @ [out]) = Suc n"
      using len by simp_all
    moreover have "map (\<lambda>i. map_option
           (\<lambda>b. eval_ops net (variables (S ds a mode p i))
                  (feed_dict a mode (map (fst \<circ> snd) b) (map (snd \<circ> snd) b)))
           (get_next ds i)) [0..<length (outs @ [out])] = map Some (outs @ [out])"
      using outs(3) len b(1) by (simp add: out_def)
    moreover have "losses (S ds a mode p (Suc n)) = map loss_op (outs @ [out])"
      using outs(4) b(2) by (simp add: out_def)
    moreover have "epoch_loss (S ds a mode p (Suc n)) =
        sum_list (map (np_mean \<circ> loss_op) (outs @ [out])) / real (length (outs @ [out]))"
      using outs(5) b(2) len mean_step [of "map (np_mean \<circ> loss_op) outs" "np_mean (loss_op out)"]
      by (simp add: loop_body_fields out_def)
    moreover have "epoch_acc (S ds a mode p (Suc n)) =
        sum_list (map (np_mean \<circ> accuracy_op) (outs @ [out])) / real (length (outs @ [out]))"
      using outs(6) b(2) len mean_step [of "map (np_mean \<circ> accuracy_op) outs" "np_mean (accuracy_op out)"]
      by (simp add: loop_body_fields out_def)
    ultimately show ?thesis by blast
  qed
qed

text \<open>
  The update \<^verbatim>\<open>mean += (batch_value - mean) / (i + 1)\<close> in exact arithmetic. Let \<open>outs\<close> be
  the tensor values the session returned for the batches a pass of the loop processed, in
  order: as many as the bound \<open>nb\<close> when the dataset has that many batches. The loop kept
  one loss array per batch, and its two accumulators are the arithmetic mean of the
  per-batch mean losses and that of the per-batch mean accuracies (both \<open>0\<close> when no batch
  was processed). This is about the real numbers of the model, not about the floats of
  the code, whose update rounds at every step.
\<close>

lemma running_mean_exact_arithmetic:
  "\<exists>outs. length outs \<le> nb \<and>
     (avail (batch_dataset_generator order generator a (mode = ''test'')) nb \<longrightarrow>
        length outs = nb) \<and>
     map (session_values net order a generator mode p) [0..<length outs] = map Some outs \<and>
     losses (run_batches net order a generator mode nb p) = map loss_op outs \<and>
     epoch_loss (run_batches net order a generator mode nb p) =
       sum_list (map (np_mean \<circ> loss_op) outs) / real (length outs) \<and>
     epoch_acc (run_batches net order a generator mode nb p) =
       sum_list (map (np_mean \<circ> accuracy_op) outs) / real (length outs)"
proof -
  let ?ds = "batch_dataset_generator order generator a (mode = ''test'')"
  from running_mean_invariant [of nb ?ds net a mode p]
  obtain outs where outs:
      "length outs \<le> nb" "avail ?ds nb \<longrightarrow> length outs = nb"
      "map (\<lambda>i. map_option
           (\<lambda>b. eval_ops net (variables (for_batches net a mode ?ds [0..<i] (init_loop p)))
                  (feed_dict a mode (map (fst \<circ> snd) b) (map (snd \<circ> snd) b)))
           (get_next ?ds i)) [0..<length outs] = map Some outs"
      "losses (for_batches net a mode ?ds [0..<nb] (init_loop p)) = map loss_op outs"
      "epoch_loss (for_batches net a mode ?ds [0..<nb] (init_loop p))
         = sum_list (map (np_mean \<circ> loss_op) outs) / real (length outs)"
      "epoch_acc (for_batches net a mode ?ds [0..<nb] (init_loop p))
         = sum_list (map (np_mean \<circ> accuracy_op) outs) / real (length outs)"
    by blast
  have sv: "session_values net order a generator mode p = (\<lambda>i. map_option
           (\<lambda>b. eval_ops net (variables (for_batches net a mode ?ds [0..<i] (init_loop p)))
                  (feed_dict a mode (map (fst \<circ> snd) b) (map (snd \<circ> snd) b)))
           (get_next ?ds i))"
    by (rule ext) (simp only: session_values_def Let_def)
  show ?thesis
    unfolding run_batches_def sv using outs by (intro exI [of _ outs]) (simp only:)
qed

lemma concat_take_groups_of:
  "0 < n \<Longrightarrow> concat (take k (groups_of n xs)) = take (k * n) xs"
proof (induction k arbitrary: xs)
  case 0
  then show ?case by simp
next
  case (Suc k)
  show ?case
  proof (cases "xs = []")
    case True
    then show ?thesis by (simp add: groups_of.simps)
  next
    case False
    with Suc.prems have "groups_of n xs = take n xs # groups_of n (drop n xs)"
      by (simp add: groups_of.simps)
    with Suc.IH [OF Suc.prems, of "drop n xs"] show ?thesis
      by (simp add: take_add [symmetric] add.commute)
  qed
qed

lemma ceil_div_small:
  fixes m n :: nat
  assumes "0 < m" "m \<le> n"
  shows "(m + n - 1) div n = 1"
proof (rule div_nat_eqI)
  show "n * 1 \<le> m + n - 1" using assms by arith
  show "m + n - 1 < n * Suc 1" using assms by simp
qed

lemma length_groups_of:
  "0 < n \<Longrightarrow> length (groups_of n xs) = (length xs + n - 1) div n"
proof (induction n xs rule: groups_of.induct)
  case (1 n xs)
  show ?case
  proof (cases "xs = []")
    case True
    with "1.prems" show ?thesis by (simp add: groups_of.simps)
  next
    case False
    with "1.prems" have c: "groups_of n xs = take n xs # groups_of n (drop n xs)"
      by (simp add: groups_of.simps)
    from "1.IH" "1.prems" False have ih: "length (groups_of n (drop n xs)) = (length xs - n + n - 1) div n"
      by simp
    show ?thesis
    proof (cases "length xs \<le> n")
      case True
      from False have "0 < length xs" by simp
      from ceil_div_small [OF this True] have "(length xs + n - 1) div n = 1" .
      with True ih "1.prems" show ?thesis by (simp add: c)
    next
      case gt: False
      then have "length xs + n - 1 = (length xs - n + n - 1) + n" by simp
      then have "(length xs + n - 1) div n = (length xs - n + n - 1) div n + 1"
        using "1.prems" by (metis div_add_self2 less_numeral_extra(3))
      with ih show ?thesis by (simp add: c)
    qed
  qed
qed

lemma avail_Finite: "avail (Finite xs) n \<longleftrightarrow> n \<le> length xs"
  by (auto simp: avail_def not_less [symmetric])

lemma avail_Endless [simp]: "avail (Endless f) n"
  by (simp add: avail_def)

lemma for_batches_Finite:
  "structures (for_batches net a mode (Finite bs) [0..<n] (init_loop p)) = map fst (concat (take n bs)) \<and>
   labels (for_batches net a mode (Finite bs) [0..<n] (init_loop p)) = map (snd \<circ> snd) (concat (take n bs)) \<and>
   length (losses (for_batches net a mode (Finite bs) [0..<n] (init_loop p))) = min n (length bs)"
proof (induction n)
  case 0
  show ?case by (simp add: init_loop_def)
next
  case (Suc n)
  show ?case
  proof (cases "avail (Finite bs) (Suc n)")
    case False
    then have "for_batches net a mode (Finite bs) [0..<Suc n] (init_loop p)
        = for_batches net a mode (Finite bs) [0..<n] (init_loop p)"
      by (rule for_batches_Suc_stop)
    moreover from False have "length bs \<le> n" by (simp add: avail_Finite)
    ultimately show ?thesis using Suc by simp
  next
    case True
    then have n: "n < length bs" by (simp add: avail_Finite)
    from for_batches_Suc_go [OF True, of net a mode "init_loop p"] n
    have "for_batches net a mode (Finite bs) [0..<Suc n] (init_loop p)
        = loop_body net a mode n (bs ! n) (for_batches net a mode (Finite bs) [0..<n] (init_loop p))"
      by simp
    with Suc n show ?thesis
      by (simp add: loop_body_fields take_Suc_conv_app_nth)
  qed
qed

lemma length_losses_le:
  "length (losses (for_batches net a mode ds [0..<n] (init_loop p))) \<le> n"
  using running_mean_invariant [of n ds net a mode p] by (metis length_map)

lemma test_dataset:
  "batch_dataset_generator order generator a True
     = Finite (groups_of (batch_size a) generator)"
  by (simp add: batch_dataset_generator_def from_generator_def prefetch_def)

lemma for_batches_all_available:
  assumes "avail ds n"
  shows "length (losses (for_batches net a mode ds [0..<n] (init_loop p))) = n"
  using running_mean_invariant [of n ds net a mode p] assms by (metis length_map)

lemma run_batches_test_mode:
  assumes "0 < batch_size a"
  shows "structures (run_batches net order a generator ''test'' nb p)
           = map fst (take (nb * batch_size a) generator) \<and>
         labels (run_batches net order a generator ''test'' nb p)
           = map (snd \<circ> snd) (take (nb * batch_size a) generator) \<and>
         length (losses (run_batches net order a generator ''test'' nb p))
           = min nb ((length generator + batch_size a - 1) div batch_size a)"
  using assms for_batches_Finite [of net a "''test''" "groups_of (batch_size a) generator" nb p]
  by (simp add: run_batches_def test_dataset concat_take_groups_of length_groups_of)

text \<open>
  Claim C7, as amended. Whenever line 197 yields a bound \<open>nb\<close>, a call of \<^verbatim>\<open>__loop\<close>
  returns (the end of the dataset is no error) and processes at most \<open>nb\<close> batches; in
  mode \<^verbatim>\<open>test\<close>, where the dataset is one pass over the generator, it collects exactly the
  examples of the first \<open>nb\<close> batches of that pass and stops at the end of the pass when
  that comes first. When line 197 raises, so does the call. For a positive batch size and
  a \<open>num_iters\<close> that are both at most \<open>2 ^ 53\<close> in absolute value the bound is the exact
  \<open>ceil(num_iters / batch_size)\<close>. In particular with \<open>num_iters = 10\<close>, \<open>batch_size = 4\<close>
  and a test stream of seven examples the bound is three batches, two are processed and
  seven examples are collected.
\<close>

theorem loop_stops_at_bound_or_exhaustion:
  "(num_batches a num_iters = Inr nb \<longrightarrow>
      loop net order a generator mode num_iters p =
        Inr (result_of (run_batches net order a generator mode nb p),
             variables (run_batches net order a generator mode nb p)) \<and>
      length (losses (run_batches net order a generator mode nb p)) \<le> nb \<and>
      (mode = ''test'' \<longrightarrow>
         res_structures (result_of (run_batches net order a generator mode nb p))
           = map fst (take (nb * batch_size a) generator) \<and>
         length (losses (run_batches net order a generator mode nb p))
           = min nb ((length generator + batch_size a - 1) div batch_size a))) \<and>
   (num_batches a num_iters = Inl err \<longrightarrow>
      loop net order a generator mode num_iters p = Inl err) \<and>
   (0 < batch_size a \<and> batch_size a \<le> 2 ^ 53 \<and> \<bar>num_iters\<bar> \<le> 2 ^ 53 \<longrightarrow>
      num_batches a num_iters = Inr (nat \<lceil>real_of_int num_iters / real (batch_size a)\<rceil>)) \<and>
   (mode = ''test'' \<and> num_iters = 10 \<and> batch_size a = 4 \<and> length generator = 7 \<longrightarrow>
      num_batches a num_iters = Inr 3 \<and>
      length (losses (run_batches net order a generator mode 3 p)) = 2 \<and>
      length (res_structures (result_of (run_batches net order a generator mode 3 p))) = 7 \<and>
      length (res_labels (result_of (run_batches net order a generator mode 3 p))) = 7)"
proof (intro conjI impI)
  assume nb: "num_batches a num_iters = Inr nb"
  then show "loop net order a generator mode num_iters p =
        Inr (result_of (run_batches net order a generator mode nb p),
             variables (run_batches net order a generator mode nb p))"
    by (simp add: loop_def Let_def)
  show "length (losses (run_batches net order a generator mode nb p)) \<le> nb"
    unfolding run_batches_def by (rule length_losses_le)
  assume t: "mode = ''test''"
  from run_batches_test_mode [OF num_batches_Inr_batch_size [OF nb], of net order generator nb p] t
  show "res_structures (result_of (run_batches net order a generator mode nb p))
           = map fst (take (nb * batch_size a) generator)"
    and "length (losses (run_batches net order a generator mode nb p))
           = min nb ((length generator + batch_size a - 1) div batch_size a)"
    by (simp_all add: result_of_def)
next
  assume "num_batches a num_iters = Inl err"
  then show "loop net order a generator mode num_iters p = Inl err"
    by (simp add: loop_def)
next
  assume "0 < batch_size a \<and> batch_size a \<le> 2 ^ 53 \<and> \<bar>num_iters\<bar> \<le> 2 ^ 53"
  then show "num_batches a num_iters
      = Inr (nat \<lceil>real_of_int num_iters / real (batch_size a)\<rceil>)"
    by (intro num_batches_exact) simp_all
next
  assume h: "mode = ''test'' \<and> num_iters = 10 \<and> batch_size a = 4 \<and> length generator = 7"
  then have "num_batches a num_iters
      = Inr (nat \<lceil>real_of_int num_iters / real (batch_size a)\<rceil>)"
    by (intro num_batches_exact) simp_all
  with h show "num_batches a num_iters = Inr 3" by simp
  from h have b: "0 < batch_size a" by simp
  from run_batches_test_mode [OF b, of net order generator 3 p] h
  show "length (losses (run_batches net order a generator mode 3 p)) = 2"
    and "length (res_structures (result_of (run_batches net order a generator mode 3 p))) = 7"
    and "length (res_labels (result_of (run_batches net order a generator mode 3 p))) = 7"
    by (simp_all add: result_of_def)
qed

text \<open>
  The instance of the claim on the concrete run: batch size 4, \<open>num_iters = 10\<close> and the
  seven examples of the test split.
\<close>

theorem loop_stops_at_bound_or_exhaustion_witness:
  "length (test_generator demo_env) = 7 \<and>
   num_batches (demo_args \<lparr> batch_size := 4 \<rparr>) 10 = Inr 3 \<and>
   loop demo_net (\<lambda>k. k) (demo_args \<lparr> batch_size := 4 \<rparr>) (test_generator demo_env) ''test'' 10 0
     = Inr (result_of (run_batches demo_net (\<lambda>k. k) (demo_args \<lparr> batch_size := 4 \<rparr>)
                         (test_generator demo_env) ''test'' 3 0),
            variables (run_batches demo_net (\<lambda>k. k) (demo_args \<lparr> batch_size := 4 \<rparr>)
                         (test_generator demo_env) ''test'' 3 0)) \<and>
   length (losses (run_batches demo_net (\<lambda>k. k) (demo_args \<lparr> batch_size := 4 \<rparr>)
                     (test_generator demo_env) ''test'' 3 0)) = 2 \<and>
   length (res_structures (result_of (run_batches demo_net (\<lambda>k. k)
                     (demo_args \<lparr> batch_size := 4 \<rparr>) (test_generator demo_env) ''test'' 3 0))) = 7"
proof -
  have g: "length (test_generator demo_env) = 7" by (simp add: demo_env_def)
  have b: "batch_size (demo_args \<lparr> batch_size := 4 \<rparr>) = 4" by simp
  from loop_stops_at_bound_or_exhaustion [of "demo_args \<lparr> batch_size := 4 \<rparr>" 10 3
      demo_net "\<lambda>k. k" "test_generator demo_env" "''test''" 0] g b
  show ?thesis by simp
qed

text \<open>
  Against claim C7 as stated. With batch size 1 and \<open>num_iters = 2 ^ 53 + 3\<close> (five times
  \<open>1801439850948199\<close>, so a count the accounting can produce) the conversion of line 197
  rounds to \<open>2 ^ 53 + 4\<close>: over the repeated training stream the loop processes one batch
  more than \<open>ceil(num_iters / batch_size)\<close>. With \<open>num_iters = 2 ^ 1024\<close> the conversion
  raises \<^verbatim>\<open>OverflowError\<close> and the call does not return a result.
\<close>

theorem loop_bound_counterexample:
  "num_batches (demo_args \<lparr> batch_size := 1 \<rparr>) (2 ^ 53 + 3) = Inr (2 ^ 53 + 4) \<and>
   nat \<lceil>real_of_int (2 ^ 53 + 3) / real (batch_size (demo_args \<lparr> batch_size := 1 \<rparr>))\<rceil>
     = 2 ^ 53 + 3 \<and>
   loop demo_net (\<lambda>k. k) (demo_args \<lparr> batch_size := 1 \<rparr>) (train_generator demo_env) ''train''
       (2 ^ 53 + 3) 0
     = Inr (result_of (run_batches demo_net (\<lambda>k. k) (demo_args \<lparr> batch_size := 1 \<rparr>)
                         (train_generator demo_env) ''train'' (2 ^ 53 + 4) 0),
            variables (run_batches demo_net (\<lambda>k. k) (demo_args \<lparr> batch_size := 1 \<rparr>)
                         (train_generator demo_env) ''train'' (2 ^ 53 + 4) 0)) \<and>
   length (losses (run_batches demo_net (\<lambda>k. k) (demo_args \<lparr> batch_size := 1 \<rparr>)
                     (train_generator demo_env) ''train'' (2 ^ 53 + 4) 0)) = 2 ^ 53 + 4 \<and>
   loop demo_net (\<lambda>k. k) (demo_args \<lparr> batch_size := 1 \<rparr>) (train_generator demo_env) ''train''
       (2 ^ 1024) 0
     = Inl OverflowError"
proof -
  let ?a = "demo_args \<lparr> batch_size := 1 \<rparr>"
  have r1: "double_round (2 ^ 53 + 3) = 2 ^ 53 + 4"
    using double_round_eval [of 53 "2 ^ 53 + 3"]
    by (simp add: round_half_even_def Let_def)
  have r2: "double_round (2 ^ 53 + 4) = 2 ^ 53 + 4"
    using double_round_eval [of 53 "2 ^ 53 + 4"]
    by (simp add: round_half_even_def Let_def)
  have r3: "double_round (2 ^ 1024) = 2 ^ 1024"
    using double_round_eval [of 1024 "2 ^ 1024"]
    by (simp add: round_half_even_def Let_def)
  have f1: "py_float (2 ^ 53 + 3) = Inr (2 ^ 53 + 4)"
    using r1 by (simp add: py_float_def Let_def)
  have f3: "py_float (2 ^ 1024) = Inl OverflowError"
    using r3 by (simp add: py_float_def Let_def)
  have fb: "py_float (int (batch_size ?a)) = Inr 1"
    using py_float_exact [of 1] by simp
  have nb: "num_batches ?a (2 ^ 53 + 3) = Inr (2 ^ 53 + 4)"
    using f1 fb r2 by (simp add: num_batches_def)
  have ov: "num_batches ?a (2 ^ 1024) = Inl OverflowError"
    using f3 by (simp add: num_batches_def)
  have ds: "batch_dataset_generator (\<lambda>k. k) (train_generator demo_env) ?a (''train'' = ''test'')
      = Endless (\<lambda>k. map (\<lambda>j. (''1abc/12/45'', (), 1)) [k * 1..<k * 1 + 1])"
    by (simp add: batch_dataset_generator_def from_generator_def prefetch_def demo_env_def
        demo_args_def)
  have cnt: "length (losses (run_batches demo_net (\<lambda>k. k) ?a (train_generator demo_env)
      ''train'' (2 ^ 53 + 4) 0)) = 2 ^ 53 + 4"
    unfolding run_batches_def ds by (rule for_batches_all_available) (simp add: avail_def)
  from nb ov cnt show ?thesis by (simp add: loop_def Let_def)
qed

text \<open>
  Claim C1, against the code. The fetch list of line 205 holds the optimizer's operation
  in every mode, so each batch of \<^verbatim>\<open>__loop\<close> applies it to the variables, whatever the
  mode is. On the concrete run one call in mode \<^verbatim>\<open>val\<close> over one batch leaves the
  variables at \<open>1\<close>, not at the \<open>0\<close> it started from. (The dropout rates it feeds are
  zero: lemma \<open>feed_dict_eval_mode\<close>.)
\<close>

theorem val_loop_updates_variables:
  "variables (loop_body net a mode i b st) =
     apply_train_op net (variables st)
       (feed_dict a mode (map (fst \<circ> snd) b) (map (snd \<circ> snd) b)) \<and>
   loop demo_net (\<lambda>k. k) demo_args (val_generator demo_env) ''val'' 2 0
     = Inr (\<lparr> res_structures = [''2xyz/3/4'', ''2xyz/3/4''], res_logits = [0, 0],
              res_preds = [0, 0], res_labels = [0, 0], res_losses = [1, 1],
              res_epoch_loss = 1 \<rparr>, 1)"
proof -
  have nb: "num_batches demo_args 2 = Inr 1"
    using num_batches_exact [of demo_args 2] by (simp add: demo_args_def)
  have "loop demo_net (\<lambda>k. k) demo_args (val_generator demo_env) ''val'' 2 0
     = Inr (\<lparr> res_structures = [''2xyz/3/4'', ''2xyz/3/4''], res_logits = [0, 0],
              res_preds = [0, 0], res_labels = [0, 0], res_losses = [1, 1],
              res_epoch_loss = 1 \<rparr>, 1)"
    unfolding loop_def nb
    by (simp add: run_batches_def batch_dataset_generator_def
        from_generator_def prefetch_def demo_args_def demo_env_def demo_net_def demo_loss_def
        init_loop_def loop_body_def sess_run_def feed_dict_def result_of_def np_mean_def
        Let_def upt_rec)
  then show ?thesis by (simp add: loop_body_fields)
qed

section \<open>Dataset-size accounting and the configuration guards\<close>

text \<open>
  Claim C6. When \<open>max_pos_regions_per_ensemble\<close> and \<open>neg_to_pos_ratio\<close> are positive, the
  per-epoch example counts of the train and validation splits are
  \<open>num_structures * repeat * max_pos_regions_per_ensemble * (1 + neg_to_pos_ratio)\<close>, with
  \<open>num_structures\<close> the option \<open>max_num_ensembles\<close> of the split when it is set and the
  number of keyed entities of the split otherwise; they are a function of the
  configuration and of those two numbers, and they are the bounds the epoch loop passes
  to \<^verbatim>\<open>__loop\<close>.
\<close>

theorem num_examples_per_epoch_formula:
  assumes "0 < max_pos_regions_per_ensemble (grid_config a)"
      and "0 < neg_to_pos_ratio (grid_config a)"
  shows "train_val_num_structures e a =
           Inr ((case max_num_ensembles_train a of None \<Rightarrow> train_num_keyed e | Some m \<Rightarrow> m)
                  * repeat_gen a * max_pos_regions_per_ensemble (grid_config a)
                  * (1 + neg_to_pos_ratio (grid_config a)),
                (case max_num_ensembles_val a of None \<Rightarrow> val_num_keyed e | Some m \<Rightarrow> m)
                  * repeat_gen a * max_pos_regions_per_ensemble (grid_config a)
                  * (1 + neg_to_pos_ratio (grid_config a))) \<and>
         training e a st =
           for_epochs e a
             ((case max_num_ensembles_train a of None \<Rightarrow> train_num_keyed e | Some m \<Rightarrow> m)
                  * repeat_gen a * max_pos_regions_per_ensemble (grid_config a)
                  * (1 + neg_to_pos_ratio (grid_config a)))
             ((case max_num_ensembles_val a of None \<Rightarrow> val_num_keyed e | Some m \<Rightarrow> m)
                  * repeat_gen a * max_pos_regions_per_ensemble (grid_config a)
                  * (1 + neg_to_pos_ratio (grid_config a)))
             [1..num_epochs a] st"
proof -
  have "train_val_num_structures e a =
           Inr ((case max_num_ensembles_train a of None \<Rightarrow> train_num_keyed e | Some m \<Rightarrow> m)
                  * repeat_gen a * max_pos_regions_per_ensemble (grid_config a)
                  * (1 + neg_to_pos_ratio (grid_config a)),
                (case max_num_ensembles_val a of None \<Rightarrow> val_num_keyed e | Some m \<Rightarrow> m)
                  * repeat_gen a * max_pos_regions_per_ensemble (grid_config a)
                  * (1 + neg_to_pos_ratio (grid_config a)))"
    using assms by (simp add: train_val_num_structures_def Let_def mult.assoc)
  then show ?thesis by (simp add: training_def)
qed

text \<open>
  The formula on the concrete run, with \<open>repeat_gen = 3\<close> and five validation ensembles.
\<close>

theorem num_examples_per_epoch_formula_witness:
  "0 < max_pos_regions_per_ensemble (grid_config (demo_args \<lparr> repeat_gen := 3, max_num_ensembles_val := Some 5 \<rparr>)) \<and>
   0 < neg_to_pos_ratio (grid_config (demo_args \<lparr> repeat_gen := 3, max_num_ensembles_val := Some 5 \<rparr>)) \<and>
   train_val_num_structures demo_env (demo_args \<lparr> repeat_gen := 3, max_num_ensembles_val := Some 5 \<rparr>)
     = Inr (6, 30)"
proof -
  let ?a = "demo_args \<lparr> repeat_gen := 3, max_num_ensembles_val := Some 5 \<rparr>"
  have h: "0 < max_pos_regions_per_ensemble (grid_config ?a)" "0 < neg_to_pos_ratio (grid_config ?a)"
    by (simp_all add: demo_args_def)
  from num_examples_per_epoch_formula [OF h, of demo_env] h show ?thesis
    by (simp add: demo_args_def demo_env_def)
qed

lemma testing_asserts:
  "test_num_structures e a = Inl AssertionError \<Longrightarrow> testing e a st = Inl AssertionError"
  by (simp add: testing_def)

lemma train_model_fails_in_testing:
  "test_num_structures e a = Inl AssertionError \<Longrightarrow> \<exists>err. train_model e a d = Inl err"
  by (auto simp: train_model_def testing_def split: sum.splits prod.splits)

text \<open>
  Claim C5. A training run whose \<open>max_pos_regions_per_ensemble\<close> or \<open>neg_to_pos_ratio\<close> is
  not positive computes no example count: the count, the training phase and the whole
  of \<^verbatim>\<open>train_model\<close> end in the assertion failure of line 274, whatever the collaborators
  are, so before any stream is read. Without \<open>full_test\<close>, a run whose testing cap or
  ratio is not positive computes no test count: the test phase ends in the assertion
  failure of line 415 from any state, before the test stream is read, and
  \<^verbatim>\<open>train_model\<close> ends in an exception.
\<close>

theorem nonpositive_sampling_fails_fast:
  "(\<not> test_only a \<and> (max_pos_regions_per_ensemble (grid_config a) \<le> 0
                        \<or> neg_to_pos_ratio (grid_config a) \<le> 0) \<longrightarrow>
      train_val_num_structures e a = Inl AssertionError \<and>
      training e a st = Inl AssertionError \<and>
      train_model e a d = Inl AssertionError) \<and>
   (\<not> full_test (grid_config a) \<and> (max_pos_regions_per_ensemble_testing (grid_config a) \<le> 0
                        \<or> neg_to_pos_ratio_testing (grid_config a) \<le> 0) \<longrightarrow>
      test_num_structures e a = Inl AssertionError \<and>
      testing e a st = Inl AssertionError \<and>
      (\<exists>err. train_model e a d = Inl err))"
proof (intro conjI impI)
  assume h: "\<not> test_only a \<and> (max_pos_regions_per_ensemble (grid_config a) \<le> 0
                        \<or> neg_to_pos_ratio (grid_config a) \<le> 0)"
  then show c: "train_val_num_structures e a = Inl AssertionError"
    by (auto simp: train_val_num_structures_def)
  then show "training e a st = Inl AssertionError"
    by (simp add: training_def)
  from c h show "train_model e a d = Inl AssertionError"
    by (simp add: train_model_def training_def)
next
  assume h: "\<not> full_test (grid_config a) \<and> (max_pos_regions_per_ensemble_testing (grid_config a) \<le> 0
                        \<or> neg_to_pos_ratio_testing (grid_config a) \<le> 0)"
  then show c: "test_num_structures e a = Inl AssertionError"
    by (auto simp: test_num_structures_def)
  then show "testing e a st = Inl AssertionError" by (rule testing_asserts)
  from c show "\<exists>err. train_model e a d = Inl err" by (rule train_model_fails_in_testing)
qed

text \<open>
  Claim C2, as amended. With \<open>full_test\<close> set the guard of line 401 fails, so no test
  example count is computed: the test phase ends in the assertion failure of line 415
  from any state, before the test stream is read, and \<^verbatim>\<open>train_model\<close> never completes.
\<close>

theorem full_test_is_refused:
  assumes "full_test (grid_config a)"
  shows "test_num_structures e a = Inl AssertionError \<and>
         testing e a st = Inl AssertionError \<and>
         (\<exists>err. train_model e a d = Inl err)"
proof -
  from assms have c: "test_num_structures e a = Inl AssertionError"
    by (simp add: test_num_structures_def)
  with testing_asserts [OF c] train_model_fails_in_testing [OF c] show ?thesis by simp
qed

text \<open>
  Both halves on the concrete run: a training ratio of \<open>0\<close>, and the testing cap \<open>-1\<close>
  that is the command line's default.
\<close>

theorem nonpositive_sampling_fails_fast_witness:
  "\<not> test_only (demo_args \<lparr> grid_config := (grid_config demo_args) \<lparr> neg_to_pos_ratio := 0 \<rparr> \<rparr>) \<and>
   neg_to_pos_ratio (grid_config
     (demo_args \<lparr> grid_config := (grid_config demo_args) \<lparr> neg_to_pos_ratio := 0 \<rparr> \<rparr>)) \<le> 0 \<and>
   train_model demo_env
     (demo_args \<lparr> grid_config := (grid_config demo_args) \<lparr> neg_to_pos_ratio := 0 \<rparr> \<rparr>) demo_disk
     = Inl AssertionError \<and>
   \<not> full_test (grid_config (demo_args \<lparr> grid_config :=
       (grid_config demo_args) \<lparr> max_pos_regions_per_ensemble_testing := - 1 \<rparr> \<rparr>)) \<and>
   max_pos_regions_per_ensemble_testing (grid_config (demo_args \<lparr> grid_config :=
       (grid_config demo_args) \<lparr> max_pos_regions_per_ensemble_testing := - 1 \<rparr> \<rparr>)) \<le> 0 \<and>
   testing demo_env (demo_args \<lparr> grid_config :=
       (grid_config demo_args) \<lparr> max_pos_regions_per_ensemble_testing := - 1 \<rparr> \<rparr>)
     (initial_state demo_env demo_disk) = Inl AssertionError"
proof -
  let ?a1 = "demo_args \<lparr> grid_config := (grid_config demo_args) \<lparr> neg_to_pos_ratio := 0 \<rparr> \<rparr>"
  let ?a2 = "demo_args \<lparr> grid_config :=
       (grid_config demo_args) \<lparr> max_pos_regions_per_ensemble_testing := - 1 \<rparr> \<rparr>"
  have h1: "\<not> test_only ?a1" "neg_to_pos_ratio (grid_config ?a1) \<le> 0"
    by (simp_all add: demo_args_def)
  have h2: "\<not> full_test (grid_config ?a2)"
    "max_pos_regions_per_ensemble_testing (grid_config ?a2) \<le> 0"
    by (simp_all add: demo_args_def)
  from nonpositive_sampling_fails_fast [of ?a1 demo_env "initial_state demo_env demo_disk" demo_disk] h1
  have "train_model demo_env ?a1 demo_disk = Inl AssertionError" by blast
  moreover
  from nonpositive_sampling_fails_fast [of ?a2 demo_env "initial_state demo_env demo_disk" demo_disk] h2
  have "testing demo_env ?a2 (initial_state demo_env demo_disk) = Inl AssertionError" by blast
  ultimately show ?thesis using h1 h2 by blast
qed

lemma demo_test_only_state:
  "initial_state demo_env demo_model_disk =
     \<lparr> sess = 0, checkpoints = [Model_ckpt ''model'' 1 \<mapsto> 2],
       run_info_json = [''model'' \<mapsto> [''best_ckpt'' \<mapsto> Ckpt (Model_ckpt ''model'' 1)]],
       prev_val_loss = Float_inf, best_val_loss = Float_inf, ckpt = None,
       run_info = Map.empty, per_epoch_val_losses = [] \<rparr>"
  by (simp add: initial_state_def demo_env_def demo_model_disk_def)

lemma demo_test_loop:
  "loop demo_net (\<lambda>k. k) (demo_args \<lparr> test_only := True \<rparr>) (test_generator demo_env)
       ''test'' 2 2
     = Inr (\<lparr> res_structures = [''t/0/1'', ''t/0/2''], res_logits = [0, 0],
              res_preds = [0, 0], res_labels = [1, 0], res_losses = [4 / 5, 4 / 5],
              res_epoch_loss = 4 / 5 \<rparr>, 3)"
proof -
  have nb: "num_batches (demo_args \<lparr> test_only := True \<rparr>) 2 = Inr 1"
    using num_batches_exact [of "demo_args \<lparr> test_only := True \<rparr>" 2]
    by (simp add: demo_args_def)
  show ?thesis
    unfolding loop_def nb
    by (simp add: run_batches_def batch_dataset_generator_def
        from_generator_def prefetch_def demo_args_def demo_env_def demo_net_def demo_loss_def
        init_loop_def loop_body_def sess_run_def feed_dict_def result_of_def np_mean_def
        Let_def upt_rec groups_of.simps)
qed

lemma demo_testing:
  assumes "sess st = 2"
  shows "testing demo_env (demo_args \<lparr> test_only := True \<rparr>) st
     = Inr (st \<lparr> sess := 3 \<rparr>,
            \<lparr> res_structures = [''t/0/1'', ''t/0/2''], res_logits = [0, 0],
              res_preds = [0, 0], res_labels = [1, 0], res_losses = [4 / 5, 4 / 5],
              res_epoch_loss = 4 / 5 \<rparr>)"
proof -
  have a: "full_test (grid_config demo_args) = False"
    "max_pos_regions_per_ensemble_testing (grid_config demo_args) = 1"
    "neg_to_pos_ratio_testing (grid_config demo_args) = 1"
    "max_num_ensembles_test demo_args = None"
    by (simp_all add: demo_args_def)
  have e: "stats_raise demo_env = (\<lambda>_. False)" "model demo_env = demo_net"
    "shuffle_order demo_env = (\<lambda>k. k)" "test_num_keyed demo_env = 1"
    by (simp_all add: demo_env_def)
  show ?thesis
    by (simp add: testing_def test_num_structures_def a e assms demo_test_loop)
qed

text \<open>
  Against claim C2 as stated: a test-only run over a model directory that holds the
  checkpoint and its run information completes the test pass, and the same run with
  \<open>full_test\<close> set ends in \<^verbatim>\<open>AssertionError\<close>.
\<close>

theorem full_test_counterexample:
  "full_test (grid_config (demo_args \<lparr> test_only := True,
      grid_config := (grid_config demo_args) \<lparr> full_test := True \<rparr> \<rparr>)) \<and>
   train_model demo_env (demo_args \<lparr> test_only := True,
      grid_config := (grid_config demo_args) \<lparr> full_test := True \<rparr> \<rparr>) demo_model_disk
     = Inl AssertionError \<and>
   (\<exists>st r. train_model demo_env (demo_args \<lparr> test_only := True \<rparr>) demo_model_disk = Inr (st, r))"
proof -
  have a: "model_dir demo_args = ''model''" by (simp add: demo_args_def)
  have "train_model demo_env (demo_args \<lparr> test_only := True,
      grid_config := (grid_config demo_args) \<lparr> full_test := True \<rparr> \<rparr>) demo_model_disk
     = Inl AssertionError"
    by (simp add: train_model_def demo_test_only_state select_checkpoint_def
        import_meta_graph_def lookup_best_ckpt_def restore_def testing_def
        test_num_structures_def a)
  moreover
  have "\<exists>st r. train_model demo_env (demo_args \<lparr> test_only := True \<rparr>) demo_model_disk
      = Inr (st, r)"
    by (simp add: train_model_def demo_test_only_state select_checkpoint_def
        import_meta_graph_def lookup_best_ckpt_def restore_def demo_testing a)
  ultimately show ?thesis by simp
qed

text \<open>
  The amended claim on the concrete run with \<open>full_test\<close> set.
\<close>

theorem full_test_is_refused_witness:
  "full_test (grid_config (demo_args \<lparr> grid_config := (grid_config demo_args) \<lparr> full_test := True \<rparr> \<rparr>)) \<and>
   test_num_structures demo_env
     (demo_args \<lparr> grid_config := (grid_config demo_args) \<lparr> full_test := True \<rparr> \<rparr>)
     = Inl AssertionError \<and>
   testing demo_env
     (demo_args \<lparr> grid_config := (grid_config demo_args) \<lparr> full_test := True \<rparr> \<rparr>)
     (initial_state demo_env demo_disk) = Inl AssertionError"
proof -
  let ?a = "demo_args \<lparr> grid_config := (grid_config demo_args) \<lparr> full_test := True \<rparr> \<rparr>"
  have h: "full_test (grid_config ?a)" by simp
  from full_test_is_refused [OF h, of demo_env "initial_state demo_env demo_disk" demo_disk] h
  show ?thesis by blast
qed

section \<open>The epoch loop\<close>

lemma demo_loop:
  assumes "batch_size a = 2" "shuffle a" "mode \<noteq> ''test''"
  shows "loop demo_net (\<lambda>k. k) a [x] mode 2 p =
     Inr (\<lparr> res_structures = [fst x, fst x], res_logits = [0, 0], res_preds = [0, 0],
            res_labels = [snd (snd x), snd (snd x)], res_losses = [demo_loss p, demo_loss p],
            res_epoch_loss = demo_loss p \<rparr>, Suc p)"
proof -
  have nb: "num_batches a 2 = Inr 1"
    using num_batches_exact [of a 2] assms(1) by simp
  show ?thesis
    unfolding loop_def nb using assms
    by (simp add: run_batches_def batch_dataset_generator_def
        from_generator_def prefetch_def demo_net_def
        init_loop_def loop_body_def sess_run_def feed_dict_def result_of_def np_mean_def
        Let_def upt_rec)
qed

lemma demo_epoch_body:
  assumes "batch_size a = 2" "shuffle a"
  shows "epoch_body demo_env a 2 2 epoch st =
     Inr (early_stop a (demo_loss (Suc (sess st)))
            (record_epoch a epoch (demo_loss (Suc (sess st))) (st \<lparr> sess := Suc (Suc (sess st)) \<rparr>)))"
  using assms by (simp add: epoch_body_def demo_env_def demo_loop Let_def)

lemma demo_counts:
  "grid_config a = grid_config demo_args \<Longrightarrow> max_num_ensembles_train a = None \<Longrightarrow>
   max_num_ensembles_val a = None \<Longrightarrow> repeat_gen a = 1 \<Longrightarrow>
   train_val_num_structures demo_env a = Inr (2, 2)"
  by (simp add: train_val_num_structures_def demo_env_def demo_args_def)

lemma demo_training_two_epochs:
  "\<exists>st. training demo_env demo_args (initial_state demo_env demo_disk) = Inr st \<and>
     per_epoch_val_losses st = [1, 4 / 5] \<and>
     ckpt st = Some (Model_ckpt ''out'' 1) \<and>
     checkpoints st (Model_ckpt ''out'' 1) = Some 2 \<and>
     checkpoints st (Model_ckpt ''out'' 2) = None \<and>
     run_info st ''best_ckpt'' = Some (Ckpt (Model_ckpt ''out'' 1)) \<and>
     sess st = 4"
proof -
  have a: "batch_size demo_args = 2" "shuffle demo_args" "num_epochs demo_args = 2"
    "\<not> use_best demo_args" "\<not> early_stopping demo_args" "\<not> save_all_ckpts demo_args"
    "output_dir demo_args = ''out''"
    by (simp_all add: demo_args_def)
  have c: "train_val_num_structures demo_env demo_args = Inr (2, 2)"
    by (rule demo_counts) (simp_all add: demo_args_def)
  have i: "initial_state demo_env demo_disk =
     \<lparr> sess = 0, checkpoints = Map.empty, run_info_json = Map.empty,
       prev_val_loss = Float_inf, best_val_loss = Float_inf, ckpt = None,
       run_info = Map.empty, per_epoch_val_losses = [] \<rparr>"
    by (simp add: initial_state_def demo_env_def demo_disk_def)
  show ?thesis
    by (simp add: training_def c a i upto.simps demo_epoch_body early_stop_def record_epoch_def
        save_def update_and_write_run_info_def demo_loss_def Let_def)
qed

lemma record_epoch_losses [simp]:
  "per_epoch_val_losses (record_epoch a epoch v st) = per_epoch_val_losses st @ [v]"
  by (simp add: record_epoch_def save_def update_and_write_run_info_def Let_def)

lemma record_epoch_prev [simp]:
  "prev_val_loss (record_epoch a epoch v st) = prev_val_loss st"
  by (simp add: record_epoch_def save_def update_and_write_run_info_def Let_def)

lemma record_epoch_best:
  "best_val_loss (record_epoch a epoch v st) =
     (if (use_best a \<or> early_stopping a) \<and> float_lt v (best_val_loss st) then Float v
      else best_val_loss st)"
  by (simp add: record_epoch_def save_def update_and_write_run_info_def Let_def)

lemma epoch_body_Inr:
  assumes "epoch_body e a tn vn epoch st = Inr (stop, st')"
  shows "\<exists>v. per_epoch_val_losses st' = per_epoch_val_losses st @ [v] \<and>
     best_val_loss st' =
       (if (use_best a \<or> early_stopping a) \<and> float_lt v (best_val_loss st) then Float v
        else best_val_loss st) \<and>
     stop = (early_stopping a \<and> float_ge v (prev_val_loss st)) \<and>
     prev_val_loss st' = (if stop then prev_val_loss st else Float v)"
  using assms
  by (auto simp: epoch_body_def early_stop_def record_epoch_best Let_def
      split: sum.splits prod.splits if_splits)

lemma for_epochs_prefix:
  "for_epochs e a tn vn es st = Inr st' \<Longrightarrow>
     prefix (per_epoch_val_losses st) (per_epoch_val_losses st')"
proof (induction es arbitrary: st)
  case Nil
  then show ?case by simp
next
  case (Cons epoch es)
  from Cons.prems obtain stop st1 where b: "epoch_body e a tn vn epoch st = Inr (stop, st1)"
    by (auto split: sum.splits)
  from epoch_body_Inr [OF b] have p: "prefix (per_epoch_val_losses st) (per_epoch_val_losses st1)"
    by auto
  show ?case
  proof (cases stop)
    case True
    with Cons.prems b p show ?thesis by simp
  next
    case False
    with Cons.prems b have "for_epochs e a tn vn es st1 = Inr st'" by simp
    from Cons.IH [OF this] p show ?thesis by (rule prefix_order.trans [rotated])
  qed
qed

text \<open>
  Claim C4. With early stopping enabled and at least three epochs configured, a training
  phase whose first three validation losses are \<open>1.0\<close>, \<open>0.8\<close>, \<open>0.9\<close> runs exactly
  three epochs: the body of epoch 3 breaks out of the loop, because \<open>0.9\<close> is not below the
  loss of epoch 2 held in \<^verbatim>\<open>prev_val_loss\<close>. After epoch 2 \<^verbatim>\<open>best_val_loss\<close> is \<open>0.8\<close>, and
  epoch 3 changes neither it nor \<^verbatim>\<open>prev_val_loss\<close>. The two variables are separate
  fields with the update rules of lemma \<open>epoch_body_Inr\<close>.
\<close>

theorem early_stopping_one_step_lookback:
  assumes es: "early_stopping a" and n: "3 \<le> num_epochs a"
    and tr: "training e a (initial_state e d) = Inr st"
    and tk: "take 3 (per_epoch_val_losses st) = [1, 4 / 5, 9 / 10]"
  shows "per_epoch_val_losses st = [1, 4 / 5, 9 / 10] \<and>
         best_val_loss st = Float (4 / 5) \<and>
         prev_val_loss st = Float (4 / 5) \<and>
         (\<exists>tn vn st2.
            train_val_num_structures e a = Inr (tn, vn) \<and>
            for_epochs e a tn vn [1, 2] (initial_state e d) = Inr st2 \<and>
            per_epoch_val_losses st2 = [1, 4 / 5] \<and>
            best_val_loss st2 = Float (4 / 5) \<and>
            prev_val_loss st2 = Float (4 / 5) \<and>
            epoch_body e a tn vn 3 st2 = Inr (True, st))"
proof -
  let ?st0 = "initial_state e d"
  have st0: "per_epoch_val_losses ?st0 = []" "best_val_loss ?st0 = Float_inf"
    "prev_val_loss ?st0 = Float_inf"
    by (simp_all add: initial_state_def)
  from tr obtain tn vn where c: "train_val_num_structures e a = Inr (tn, vn)"
    and f: "for_epochs e a tn vn [1..num_epochs a] ?st0 = Inr st"
    by (auto simp: training_def split: sum.splits)
  from n have up: "[1..num_epochs a] = 1 # 2 # 3 # [4..num_epochs a]"
    by (simp add: upto_rec1)
  \<comment> \<open>epoch 1\<close>
  from f up obtain b1 s1 where e1: "epoch_body e a tn vn 1 ?st0 = Inr (b1, s1)"
    by (auto split: sum.splits)
  from epoch_body_Inr [OF e1] es st0 obtain v1 where s1:
    "per_epoch_val_losses s1 = [v1]" "best_val_loss s1 = Float v1" "\<not> b1"
    "prev_val_loss s1 = Float v1"
    by auto
  from f up e1 s1(3) have f1: "for_epochs e a tn vn (2 # 3 # [4..num_epochs a]) s1 = Inr st"
    by simp
  \<comment> \<open>epoch 2\<close>
  from f1 obtain b2 s2 where e2: "epoch_body e a tn vn 2 s1 = Inr (b2, s2)"
    by (auto split: sum.splits)
  from epoch_body_Inr [OF e2] es s1 obtain v2 where s2:
    "per_epoch_val_losses s2 = [v1, v2]"
    "best_val_loss s2 = (if v2 < v1 then Float v2 else Float v1)"
    "b2 = (v1 \<le> v2)"
    "prev_val_loss s2 = (if b2 then Float v1 else Float v2)"
    by auto
  have nb2: "\<not> b2"
  proof
    assume b2
    with f1 e2 have "st = s2" by simp
    with s2(1) tk show False by simp
  qed
  with f1 e2 have f2: "for_epochs e a tn vn (3 # [4..num_epochs a]) s2 = Inr st"
    by simp
  from for_epochs_prefix [OF f2] s2(1) obtain zs where "per_epoch_val_losses st = [v1, v2] @ zs"
    by (auto simp: prefix_def)
  with tk have v12: "v1 = 1" "v2 = 4 / 5" by simp_all
  from s2 nb2 v12 have s2': "per_epoch_val_losses s2 = [1, 4 / 5]"
    "best_val_loss s2 = Float (4 / 5)" "prev_val_loss s2 = Float (4 / 5)"
    by simp_all
  from e1 e2 s1(3) nb2 have r2: "for_epochs e a tn vn [1, 2] ?st0 = Inr s2"
    by simp
  \<comment> \<open>epoch 3\<close>
  from f2 obtain b3 s3 where e3: "epoch_body e a tn vn 3 s2 = Inr (b3, s3)"
    by (auto split: sum.splits)
  from epoch_body_Inr [OF e3] es s2' obtain v3 where s3:
    "per_epoch_val_losses s3 = [1, 4 / 5, v3]"
    "best_val_loss s3 = (if v3 < 4 / 5 then Float v3 else Float (4 / 5))"
    "b3 = (4 / 5 \<le> v3)"
    "prev_val_loss s3 = (if b3 then Float (4 / 5) else Float v3)"
    by auto
  have v3: "v3 = 9 / 10"
  proof (cases b3)
    case True
    with f2 e3 have "st = s3" by simp
    with s3(1) tk show ?thesis by simp
  next
    case False
    with f2 e3 have "for_epochs e a tn vn [4..num_epochs a] s3 = Inr st" by simp
    from for_epochs_prefix [OF this] s3(1) obtain zs where
      "per_epoch_val_losses st = [1, 4 / 5, v3] @ zs"
      by (auto simp: prefix_def)
    with tk show ?thesis by simp
  qed
  with s3(3) have b3: b3 by simp
  with f2 e3 have fin: "st = s3" by simp
  from fin s3 v3 b3 have "per_epoch_val_losses st = [1, 4 / 5, 9 / 10]"
    "best_val_loss st = Float (4 / 5)" "prev_val_loss st = Float (4 / 5)"
    by simp_all
  moreover from e3 b3 fin have e3': "epoch_body e a tn vn 3 s2 = Inr (True, st)" by simp
  from c r2 s2' e3' have "\<exists>tn vn st2.
            train_val_num_structures e a = Inr (tn, vn) \<and>
            for_epochs e a tn vn [1, 2] (initial_state e d) = Inr st2 \<and>
            per_epoch_val_losses st2 = [1, 4 / 5] \<and>
            best_val_loss st2 = Float (4 / 5) \<and>
            prev_val_loss st2 = Float (4 / 5) \<and>
            epoch_body e a tn vn 3 st2 = Inr (True, st)"
    by blast
  ultimately show ?thesis by simp
qed

lemma demo_initial_state:
  "initial_state demo_env demo_disk =
     \<lparr> sess = 0, checkpoints = Map.empty, run_info_json = Map.empty,
       prev_val_loss = Float_inf, best_val_loss = Float_inf, ckpt = None,
       run_info = Map.empty, per_epoch_val_losses = [] \<rparr>"
  by (simp add: initial_state_def demo_env_def demo_disk_def)

lemma demo_training_early_stopping:
  "\<exists>st. training demo_env (demo_args \<lparr> early_stopping := True, num_epochs := 5 \<rparr>)
            (initial_state demo_env demo_disk) = Inr st \<and>
        take 3 (per_epoch_val_losses st) = [1, 4 / 5, 9 / 10]"
proof -
  let ?a = "demo_args \<lparr> early_stopping := True, num_epochs := 5 \<rparr>"
  have a: "batch_size ?a = 2" "shuffle ?a" "num_epochs ?a = 5"
    "\<not> use_best ?a" "early_stopping ?a" "\<not> save_all_ckpts ?a" "output_dir ?a = ''out''"
    by (simp_all add: demo_args_def)
  have c: "train_val_num_structures demo_env ?a = Inr (2, 2)"
    by (rule demo_counts) (simp_all add: demo_args_def)
  show ?thesis
    by (simp add: training_def c a demo_initial_state upto.simps demo_epoch_body early_stop_def
        record_epoch_def save_def update_and_write_run_info_def demo_loss_def Let_def)
qed

text \<open>
  The concrete run with early stopping and five epochs configured: its validation losses
  are \<open>1\<close>, \<open>4/5\<close>, \<open>9/10\<close>.
\<close>

theorem early_stopping_one_step_lookback_witness:
  "early_stopping (demo_args \<lparr> early_stopping := True, num_epochs := 5 \<rparr>) \<and>
   3 \<le> num_epochs (demo_args \<lparr> early_stopping := True, num_epochs := 5 \<rparr>) \<and>
   (\<exists>st. training demo_env (demo_args \<lparr> early_stopping := True, num_epochs := 5 \<rparr>)
            (initial_state demo_env demo_disk) = Inr st \<and>
         take 3 (per_epoch_val_losses st) = [1, 4 / 5, 9 / 10] \<and>
         per_epoch_val_losses st = [1, 4 / 5, 9 / 10] \<and>
         best_val_loss st = Float (4 / 5) \<and>
         prev_val_loss st = Float (4 / 5))"
proof -
  let ?a = "demo_args \<lparr> early_stopping := True, num_epochs := 5 \<rparr>"
  have es: "early_stopping ?a" and n: "3 \<le> num_epochs ?a"
    by (simp_all add: demo_args_def)
  from demo_training_early_stopping obtain st where
    tr: "training demo_env ?a (initial_state demo_env demo_disk) = Inr st" and
    tk: "take 3 (per_epoch_val_losses st) = [1, 4 / 5, 9 / 10]"
    by blast
  from early_stopping_one_step_lookback [OF es n tr tk] es n tr tk show ?thesis
    by blast
qed

lemma record_epoch_keeps_ckpt:
  assumes "\<not> use_best a" "\<not> early_stopping a" "\<not> save_all_ckpts a"
    and "epoch \<noteq> num_epochs a - 1"
  shows "ckpt (record_epoch a epoch v st) = ckpt st"
    and "checkpoints (record_epoch a epoch v st) = checkpoints st"
  using assms
  by (simp_all add: record_epoch_def save_def update_and_write_run_info_def Let_def)

lemma epoch_body_keeps_ckpt:
  assumes "\<not> use_best a" "\<not> early_stopping a" "\<not> save_all_ckpts a"
    and "epoch \<noteq> num_epochs a - 1"
    and "epoch_body e a tn vn epoch st = Inr (stop, st')"
  shows "ckpt st' = ckpt st \<and> \<not> stop"
  using assms
  by (auto simp: epoch_body_def early_stop_def record_epoch_keeps_ckpt Let_def
      split: sum.splits prod.splits if_splits)

text \<open>
  Claim C9. With \<open>num_epochs = 1\<close> and \<open>use_best\<close>, \<open>early_stopping\<close> and \<open>save_all_ckpts\<close>
  all false, a training phase that completes leaves \<^verbatim>\<open>ckpt\<close> unassigned, and
  \<^verbatim>\<open>train_model\<close> never reaches the test pass: it ends in whatever exception ended
  training, and otherwise in the \<^verbatim>\<open>UnboundLocalError\<close> of line 380.
\<close>

theorem single_epoch_leaves_ckpt_unbound:
  assumes "\<not> test_only a" and "num_epochs a = 1"
    and "\<not> use_best a" and "\<not> early_stopping a" and "\<not> save_all_ckpts a"
  shows "(\<forall>st. training e a (initial_state e d) = Inr st \<longrightarrow> ckpt st = None) \<and>
         train_model e a d =
           (case training e a (initial_state e d) of
              Inl err \<Rightarrow> Inl err
            | Inr st \<Rightarrow> Inl UnboundLocalError)"
proof -
  have unbound: "ckpt st = None" if tr: "training e a (initial_state e d) = Inr st" for st
  proof -
    from tr assms(2) obtain tn vn where
      f: "for_epochs e a tn vn [1] (initial_state e d) = Inr st"
      by (auto simp: training_def split: sum.splits)
    then obtain stop st1 where b: "epoch_body e a tn vn 1 (initial_state e d) = Inr (stop, st1)"
      by (auto split: sum.splits)
    from assms(2) have "(1::int) \<noteq> num_epochs a - 1" by simp
    from epoch_body_keeps_ckpt [OF assms(3-5) this b]
    have "ckpt st1 = None" by (simp add: initial_state_def)
    moreover from f b have "st = st1" by (simp split: if_splits)
    ultimately show ?thesis by simp
  qed
  have "train_model e a d =
           (case training e a (initial_state e d) of
              Inl err \<Rightarrow> Inl err
            | Inr st \<Rightarrow> Inl UnboundLocalError)"
  proof (cases "training e a (initial_state e d)")
    case (Inl err)
    with assms(1) show ?thesis by (simp add: train_model_def)
  next
    case (Inr st)
    with unbound have "ckpt st = None" by simp
    with Inr assms(1,3) show ?thesis
      by (simp add: train_model_def select_checkpoint_def)
  qed
  with unbound show ?thesis by blast
qed

lemma demo_training_one_epoch:
  "\<exists>st. training demo_env (demo_args \<lparr> num_epochs := 1 \<rparr>)
            (initial_state demo_env demo_disk) = Inr st"
proof -
  let ?a = "demo_args \<lparr> num_epochs := 1 \<rparr>"
  have a: "batch_size ?a = 2" "shuffle ?a" "num_epochs ?a = 1"
    "\<not> use_best ?a" "\<not> early_stopping ?a" "\<not> save_all_ckpts ?a" "output_dir ?a = ''out''"
    by (simp_all add: demo_args_def)
  have c: "train_val_num_structures demo_env ?a = Inr (2, 2)"
    by (rule demo_counts) (simp_all add: demo_args_def)
  show ?thesis
    by (simp add: training_def c a demo_initial_state upto.simps demo_epoch_body early_stop_def
        Let_def)
qed

text \<open>
  The concrete run with one epoch: training completes and the process ends in
  \<^verbatim>\<open>UnboundLocalError\<close>.
\<close>

theorem single_epoch_leaves_ckpt_unbound_witness:
  "\<not> test_only (demo_args \<lparr> num_epochs := 1 \<rparr>) \<and>
   num_epochs (demo_args \<lparr> num_epochs := 1 \<rparr>) = 1 \<and>
   \<not> use_best (demo_args \<lparr> num_epochs := 1 \<rparr>) \<and>
   \<not> early_stopping (demo_args \<lparr> num_epochs := 1 \<rparr>) \<and>
   \<not> save_all_ckpts (demo_args \<lparr> num_epochs := 1 \<rparr>) \<and>
   (\<exists>st. training demo_env (demo_args \<lparr> num_epochs := 1 \<rparr>)
            (initial_state demo_env demo_disk) = Inr st \<and> ckpt st = None) \<and>
   train_model demo_env (demo_args \<lparr> num_epochs := 1 \<rparr>) demo_disk = Inl UnboundLocalError"
proof -
  let ?a = "demo_args \<lparr> num_epochs := 1 \<rparr>"
  have h: "\<not> test_only ?a" "num_epochs ?a = 1" "\<not> use_best ?a" "\<not> early_stopping ?a"
    "\<not> save_all_ckpts ?a"
    by (simp_all add: demo_args_def)
  from demo_training_one_epoch obtain st where
    tr: "training demo_env ?a (initial_state demo_env demo_disk) = Inr st"
    by blast
  from single_epoch_leaves_ckpt_unbound [OF h, of demo_env demo_disk] tr
  have "ckpt st = None" "train_model demo_env ?a demo_disk = Inl UnboundLocalError"
    by simp_all
  with h tr show ?thesis by blast
qed

lemma record_epoch_no_final_ckpt:
  assumes "\<not> use_best a" "\<not> early_stopping a" "\<not> save_all_ckpts a"
    and "no_final_ckpt a c0 st"
  shows "no_final_ckpt a c0 (record_epoch a epoch v (st \<lparr> sess := p \<rparr>))"
  using assms
  by (simp add: no_final_ckpt_def record_epoch_def save_def update_and_write_run_info_def
      Let_def)

lemma epoch_body_no_final_ckpt:
  assumes "\<not> use_best a" "\<not> early_stopping a" "\<not> save_all_ckpts a"
    and "no_final_ckpt a c0 st"
    and "epoch_body e a tn vn epoch st = Inr (stop, st')"
  shows "no_final_ckpt a c0 st'"
proof -
  from assms(5) obtain v p where
    "early_stop a v (record_epoch a epoch v (st \<lparr> sess := p \<rparr>)) = (stop, st')"
    by (auto simp: epoch_body_def Let_def split: sum.splits prod.splits if_splits)
  then have "st' = snd (early_stop a v (record_epoch a epoch v (st \<lparr> sess := p \<rparr>)))"
    by simp
  moreover from record_epoch_no_final_ckpt [OF assms(1-4)]
  have "no_final_ckpt a c0 (record_epoch a epoch v (st \<lparr> sess := p \<rparr>))" .
  ultimately show ?thesis
    by (simp add: early_stop_def no_final_ckpt_def split: if_splits)
qed

lemma for_epochs_no_final_ckpt:
  assumes "\<not> use_best a" "\<not> early_stopping a" "\<not> save_all_ckpts a"
  shows "no_final_ckpt a c0 st \<Longrightarrow> for_epochs e a tn vn es st = Inr st' \<Longrightarrow>
     no_final_ckpt a c0 st'"
proof (induction es arbitrary: st)
  case Nil
  then show ?case by simp
next
  case (Cons epoch es)
  from Cons.prems(2) obtain stop st1 where
    b: "epoch_body e a tn vn epoch st = Inr (stop, st1)"
    by (auto split: sum.splits)
  from epoch_body_no_final_ckpt [OF assms Cons.prems(1) b]
  have inv: "no_final_ckpt a c0 st1" .
  show ?case
  proof (cases stop)
    case True
    with Cons.prems(2) b inv show ?thesis by simp
  next
    case False
    with Cons.prems(2) b have "for_epochs e a tn vn es st1 = Inr st'" by simp
    from Cons.IH [OF inv this] show ?thesis .
  qed
qed

text \<open>
  Claim C3, against the code. With \<open>use_best\<close>, \<open>early_stopping\<close> and \<open>save_all_ckpts\<close> all
  false, a training phase that completes has written no checkpoint for the epoch
  \<open>num_epochs\<close>: line 339 compares the epoch with \<open>num_epochs - 1\<close>, so the checkpoint file
  of the final epoch is what the disk held before, and neither \<^verbatim>\<open>ckpt\<close> nor
  \<^verbatim>\<open>run_info['best_ckpt']\<close> names it.
\<close>

theorem final_epoch_checkpoint_not_saved:
  assumes "\<not> use_best a" and "\<not> early_stopping a" and "\<not> save_all_ckpts a"
    and "training e a (initial_state e d) = Inr st"
  shows "checkpoints st (Model_ckpt (output_dir a) (num_epochs a))
           = disk_checkpoints d (Model_ckpt (output_dir a) (num_epochs a)) \<and>
         ckpt st \<noteq> Some (Model_ckpt (output_dir a) (num_epochs a)) \<and>
         run_info st ''best_ckpt'' \<noteq> Some (Ckpt (Model_ckpt (output_dir a) (num_epochs a)))"
proof -
  from assms(4) obtain tn vn where
    f: "for_epochs e a tn vn [1..num_epochs a] (initial_state e d) = Inr st"
    by (auto simp: training_def split: sum.splits)
  have "no_final_ckpt a (disk_checkpoints d (Model_ckpt (output_dir a) (num_epochs a)))
          (initial_state e d)"
    by (simp add: no_final_ckpt_def initial_state_def)
  from for_epochs_no_final_ckpt [OF assms(1-3) this f] show ?thesis
    by (simp add: no_final_ckpt_def)
qed

text \<open>
  The concrete run with two epochs: the only checkpoint is that of epoch 1, taken before
  the second epoch trained, and it is the one recorded as \<^verbatim>\<open>best_ckpt\<close>.
\<close>

theorem final_epoch_checkpoint_not_saved_witness:
  "\<not> use_best demo_args \<and> \<not> early_stopping demo_args \<and> \<not> save_all_ckpts demo_args \<and>
   num_epochs demo_args = 2 \<and>
   (\<exists>st. training demo_env demo_args (initial_state demo_env demo_disk) = Inr st \<and>
      per_epoch_val_losses st = [1, 4 / 5] \<and>
      checkpoints st (Model_ckpt ''out'' 1) = Some 2 \<and>
      checkpoints st (Model_ckpt ''out'' 2) = None \<and>
      ckpt st = Some (Model_ckpt ''out'' 1) \<and>
      ckpt st \<noteq> Some (Model_ckpt ''out'' 2) \<and>
      run_info st ''best_ckpt'' = Some (Ckpt (Model_ckpt ''out'' 1)))"
proof -
  have h: "\<not> use_best demo_args" "\<not> early_stopping demo_args" "\<not> save_all_ckpts demo_args"
    and n: "num_epochs demo_args = 2" and o: "output_dir demo_args = ''out''"
    by (simp_all add: demo_args_def)
  from demo_training_two_epochs obtain st where
    tr: "training demo_env demo_args (initial_state demo_env demo_disk) = Inr st" and
    v: "per_epoch_val_losses st = [1, 4 / 5]" "ckpt st = Some (Model_ckpt ''out'' 1)"
       "checkpoints st (Model_ckpt ''out'' 1) = Some 2"
       "run_info st ''best_ckpt'' = Some (Ckpt (Model_ckpt ''out'' 1))"
    by blast
  from final_epoch_checkpoint_not_saved [OF h tr] n o
  have "checkpoints st (Model_ckpt ''out'' 2) = None" "ckpt st \<noteq> Some (Model_ckpt ''out'' 2)"
    by (simp_all add: demo_disk_def)
  with h n tr v show ?thesis by blast
qed

section \<open>Checkpoint selection for the test phase\<close>

lemma for_batches_use_best [simp]:
  "for_batches net (a \<lparr> use_best := b \<rparr>) mode ds is st = for_batches net a mode ds is st"
  by (induction "is" arbitrary: st)
     (simp_all add: loop_body_def feed_dict_def split: option.splits)

lemma batch_dataset_generator_use_best [simp]:
  "batch_dataset_generator order gen (a \<lparr> use_best := b \<rparr>) t
     = batch_dataset_generator order gen a t"
  by (simp add: batch_dataset_generator_def Let_def cong: if_cong)

lemma num_batches_use_best [simp]:
  "num_batches (a \<lparr> use_best := b \<rparr>) n = num_batches a n"
  by (simp add: num_batches_def cong: sum.case_cong)

lemma run_batches_use_best [simp]:
  "run_batches net order (a \<lparr> use_best := b \<rparr>) gen mode nb p
     = run_batches net order a gen mode nb p"
  by (simp add: run_batches_def)

lemma loop_use_best [simp]:
  "loop net order (a \<lparr> use_best := b \<rparr>) gen mode n p = loop net order a gen mode n p"
  by (simp add: loop_def cong: sum.case_cong)

lemma testing_use_best [simp]:
  "testing e (a \<lparr> use_best := b \<rparr>) st = testing e a st"
  by (simp add: testing_def test_num_structures_def)



end
